theory Spec2Isabelle
  imports Main "HOL-Library.Finite_Map" "HOL-Library.Word"
begin

section \<open>Dynamic values\<close>

text \<open>
  Both \<^verbatim>\<open>json.Decode\<close> and \<^verbatim>\<open>yaml.Unmarshal\<close> fill a
  \<^verbatim>\<open>map[string]interface{}\<close>. The dynamic values below such a map are
  \<^verbatim>\<open>nil\<close>, scalars, \<^verbatim>\<open>[]interface{}\<close>,
  \<^verbatim>\<open>map[string]interface{}\<close> and (YAML mappings with a key that is not a
  string) \<^verbatim>\<open>map[interface{}]interface{}\<close>. A Go map is a finite map without key
  order, a Go string is a sequence of bytes, as \<^typ>\<open>string\<close> is.
\<close>

datatype val =
    Null
  | Boolean bool
  | Integer int
  | Float64 "64 word"
  | String string
  | Slice "val list"
  | StrMap "(string, val) fmap"
  | AnyMap "(val \<times> val) list"

type_synonym object = "(string, val) fmap"

text \<open>The type assertions \<^verbatim>\<open>v.(map[string]interface{})\<close>,
  \<^verbatim>\<open>v.([]interface{})\<close> and \<^verbatim>\<open>v.(string)\<close> in their two-result form:
  \<open>None\<close> is \<^verbatim>\<open>ok == false\<close>.\<close>

fun asMap :: "val \<Rightarrow> object option" where
  "asMap (StrMap m) = Some m"
| "asMap _ = None"

fun asSlice :: "val \<Rightarrow> val list option" where
  "asSlice (Slice xs) = Some xs"
| "asSlice _ = None"

fun asString :: "val \<Rightarrow> string option" where
  "asString (String s) = Some s"
| "asString _ = None"

text \<open>Indexing a map, \<^verbatim>\<open>m[k]\<close>: a missing key reads as \<^verbatim>\<open>nil\<close>.\<close>

definition index_map :: "object \<Rightarrow> string \<Rightarrow> val" where
  "index_map m k = (case fmlookup m k of None \<Rightarrow> Null | Some v \<Rightarrow> v)"

section \<open>Errors\<close>

datatype error =
    ReadFailed
  | ParseFailed
  | MissingSpec
  | MissingSigstoreKeys
  | MarshalFailed
  | WriteFailed
  | CertificateRejected
  | CommandFailed
  | Panic

section \<open>The tree patcher: \<^verbatim>\<open>updateYAML\<close>\<close>

text \<open>Go's \<^verbatim>\<open>int\<close> is 64 bits wide on the platforms the tool is built for.\<close>

definition maxInt :: int where
  "maxInt = 2 ^ 63 - 1"

text \<open>
  \<^verbatim>\<open>for len(authorityList) <= index { authorityList = append(authorityList, map[string]interface{}{}) }\<close>
\<close>

function grow :: "val list \<Rightarrow> int \<Rightarrow> val list" where
  "grow authorityList index =
     (if int (length authorityList) \<le> index
      then grow (authorityList @ [StrMap fmempty]) index
      else authorityList)"
  by pat_completeness auto
termination
  by (relation "measure (\<lambda>(authorityList, index). nat (index + 1 - int (length authorityList)))") auto

declare grow.simps [simp del]

text \<open>
  \<^verbatim>\<open>// Get or create the authority list\<close>: the sequence under the authority kind, or,
  where the value is absent or no sequence, \<^verbatim>\<open>make([]interface{}, index+1)\<close>, whose
  elements are \<^verbatim>\<open>nil\<close>.
\<close>

definition getOrCreate :: "object \<Rightarrow> string \<Rightarrow> int \<Rightarrow> val list" where
  "getOrCreate sigstoreKeys authority index =
     (case asSlice (index_map sigstoreKeys authority) of
        None \<Rightarrow> replicate (nat (index + 1)) Null
      | Some authorityList \<Rightarrow> authorityList)"

text \<open>
  \<^verbatim>\<open>// Update the specific authority entry\<close>: the element as a mapping, or an empty
  mapping, with the fields \<^verbatim>\<open>subject\<close>, \<^verbatim>\<open>uri\<close> and \<^verbatim>\<open>certChain\<close> set.
\<close>

definition updateEntry :: "val \<Rightarrow> string \<Rightarrow> string \<Rightarrow> string \<Rightarrow> string \<Rightarrow> object" where
  "updateEntry v organization commonName uri certChain =
     (let entry = (case asMap v of None \<Rightarrow> fmempty | Some e \<Rightarrow> e);
          subject = fmupd ''commonName'' (String commonName)
                      (fmupd ''organization'' (String organization) fmempty)
      in fmupd ''certChain'' (String certChain)
           (fmupd ''uri'' (String uri)
              (fmupd ''subject'' (StrMap subject) entry)))"

text \<open>Lines 206 to 231: the sequence that \<^verbatim>\<open>sigstoreKeys[authority]\<close> holds in the end.\<close>

definition patchList ::
  "object \<Rightarrow> string \<Rightarrow> int \<Rightarrow> string \<Rightarrow> string \<Rightarrow> string \<Rightarrow> string \<Rightarrow> val list" where
  "patchList sigstoreKeys authority index organization commonName uri certChain =
     (let authorityList = grow (getOrCreate sigstoreKeys authority index) index
      in authorityList[nat index :=
           StrMap (updateEntry (authorityList ! nat index) organization commonName uri certChain)])"

text \<open>
  Lines 195 to 231 of \<^verbatim>\<open>updateYAML\<close>: the work on the parsed tree. Go maps and
  the slice share their storage with the tree under \<^verbatim>\<open>root\<close>, so every
  assignment is visible from \<^verbatim>\<open>root\<close>; the model rebuilds the path from the entry
  up to the root.

  A negative \<^verbatim>\<open>index\<close> panics (in \<^verbatim>\<open>make\<close> or at
  \<^verbatim>\<open>authorityList[index]\<close>); at the largest \<^verbatim>\<open>int\<close> the sum
  \<^verbatim>\<open>index+1\<close> wraps to a negative length and \<^verbatim>\<open>make\<close> panics, or the
  loop appends until memory is exhausted. Both are after the two navigation checks.
\<close>

definition updateYAML_tree ::
  "object \<Rightarrow> string \<Rightarrow> int \<Rightarrow> string \<Rightarrow> string \<Rightarrow> string \<Rightarrow> string \<Rightarrow> error + object" where
  "updateYAML_tree root authority index organization commonName uri certChain =
     (case asMap (index_map root ''spec'') of
        None \<Rightarrow> Inl MissingSpec
      | Some spec \<Rightarrow>
     (case asMap (index_map spec ''sigstoreKeys'') of
        None \<Rightarrow> Inl MissingSigstoreKeys
      | Some sigstoreKeys \<Rightarrow>
        if index < 0 \<or> maxInt \<le> index then Inl Panic
        else
          let authorityList = patchList sigstoreKeys authority index organization commonName uri certChain;
              sigstoreKeys' = fmupd authority (Slice authorityList) sigstoreKeys;
              spec' = fmupd ''sigstoreKeys'' (StrMap sigstoreKeys') spec
          in Inr (fmupd ''spec'' (StrMap spec') root)))"

text \<open>Reading the sequence of an authority kind out of a document tree: the value at
  \<^verbatim>\<open>spec.sigstoreKeys.<authority>\<close>.\<close>

definition sigstoreKeysOf :: "object \<Rightarrow> object option" where
  "sigstoreKeysOf root =
     (case asMap (index_map root ''spec'') of
        None \<Rightarrow> None
      | Some spec \<Rightarrow> asMap (index_map spec ''sigstoreKeys''))"

definition authorityValue :: "object \<Rightarrow> string \<Rightarrow> val option" where
  "authorityValue root authority =
     (case sigstoreKeysOf root of
        None \<Rightarrow> None
      | Some sigstoreKeys \<Rightarrow> Some (index_map sigstoreKeys authority))"

text \<open>The element at a position of that sequence, and a field of the element.\<close>

definition entryOf :: "object \<Rightarrow> string \<Rightarrow> nat \<Rightarrow> val option" where
  "entryOf root authority i =
     (case authorityValue root authority of
        Some (Slice l) \<Rightarrow> if i < length l then Some (l ! i) else None
      | _ \<Rightarrow> None)"

definition entryField :: "object \<Rightarrow> string \<Rightarrow> nat \<Rightarrow> string \<Rightarrow> val option" where
  "entryField root authority i k =
     (case entryOf root authority i of
        Some (StrMap e) \<Rightarrow> fmlookup e k
      | _ \<Rightarrow> None)"

section \<open>Base64, standard encoding with padding\<close>

text \<open>
  \<^verbatim>\<open>base64.StdEncoding\<close> of the Go standard library (RFC 4648): the alphabet of 64
  characters, \<^verbatim>\<open>=\<close> as padding, no strict mode. Bytes are \<^typ>\<open>char\<close>s, read
  as numbers by \<^const>\<open>of_char\<close>; a shift right by \<open>n\<close> is \<open>div 2 ^ n\<close> and the
  mask \<^verbatim>\<open>0x3F\<close> is \<open>mod 64\<close>.
\<close>

definition encodeStd :: string where
  "encodeStd = ''ABCDEFGHIJKLMNOPQRSTUVWXYZabcdefghijklmnopqrstuvwxyz0123456789+/''"

definition padChar :: char where
  "padChar = CHR ''=''"

definition encode :: "nat \<Rightarrow> char" where
  "encode n = encodeStd ! n"

fun indexOf :: "char \<Rightarrow> string \<Rightarrow> nat option" where
  "indexOf c [] = None"
| "indexOf c (x # xs) = (if c = x then Some 0 else map_option Suc (indexOf c xs))"

text \<open>The decoder's table: the position of a character in the alphabet; \<open>None\<close> is
  the table's \<^verbatim>\<open>0xFF\<close>.\<close>

definition decodeMap :: "char \<Rightarrow> nat option" where
  "decodeMap c = indexOf c encodeStd"

fun EncodeToString :: "string \<Rightarrow> string" where
  "EncodeToString (a # b # c # src) =
     (let val = of_char a * 2 ^ 16 + of_char b * 2 ^ 8 + of_char c
      in [encode (val div 2 ^ 18 mod 64), encode (val div 2 ^ 12 mod 64),
          encode (val div 2 ^ 6 mod 64), encode (val mod 64)]) @ EncodeToString src"
| "EncodeToString [a, b] =
     (let val = of_char a * 2 ^ 16 + of_char b * 2 ^ 8
      in [encode (val div 2 ^ 18 mod 64), encode (val div 2 ^ 12 mod 64),
          encode (val div 2 ^ 6 mod 64), padChar])"
| "EncodeToString [a] =
     (let val = of_char a * 2 ^ 16
      in [encode (val div 2 ^ 18 mod 64), encode (val div 2 ^ 12 mod 64), padChar, padChar])"
| "EncodeToString [] = []"

datatype b64error = CorruptInput

text \<open>
  The decoder reads quanta of four characters. A full quantum gives three bytes; padding
  is accepted in the last quantum only, after two characters (one byte) or three (two
  bytes), and nothing may follow it. The left-over bits of a padded quantum are dropped
  without a check.
\<close>

fun decodeQuanta :: "string \<Rightarrow> b64error + string" where
  "decodeQuanta [] = Inr []"
| "decodeQuanta (c0 # c1 # c2 # c3 # src) =
     (case decodeMap c0 of None \<Rightarrow> Inl CorruptInput | Some d0 \<Rightarrow>
     (case decodeMap c1 of None \<Rightarrow> Inl CorruptInput | Some d1 \<Rightarrow>
     (case decodeMap c2 of
        None \<Rightarrow>
          if c2 = padChar \<and> c3 = padChar \<and> src = []
          then Inr [char_of ((d0 * 2 ^ 18 + d1 * 2 ^ 12) div 2 ^ 16)]
          else Inl CorruptInput
      | Some d2 \<Rightarrow>
     (case decodeMap c3 of
        None \<Rightarrow>
          if c3 = padChar \<and> src = []
          then (let val = d0 * 2 ^ 18 + d1 * 2 ^ 12 + d2 * 2 ^ 6
                in Inr [char_of (val div 2 ^ 16), char_of (val div 2 ^ 8)])
          else Inl CorruptInput
      | Some d3 \<Rightarrow>
          (case decodeQuanta src of
             Inl e \<Rightarrow> Inl e
           | Inr dst \<Rightarrow>
               (let val = d0 * 2 ^ 18 + d1 * 2 ^ 12 + d2 * 2 ^ 6 + d3
                in Inr (char_of (val div 2 ^ 16) # char_of (val div 2 ^ 8) # char_of val # dst)))))))"
| "decodeQuanta _ = Inl CorruptInput"

text \<open>Carriage returns and line feeds are skipped wherever they stand.\<close>

definition isNewline :: "char \<Rightarrow> bool" where
  "isNewline c = (c = CHR 0x0A \<or> c = CHR 0x0D)"

definition DecodeString :: "string \<Rightarrow> b64error + string" where
  "DecodeString s = decodeQuanta (filter (\<lambda>c. \<not> isNewline c) s)"

section \<open>PEM\<close>

text \<open>\<^verbatim>\<open>pem.Encode\<close> for a block without headers: the line
  \<^verbatim>\<open>-----BEGIN <Type>-----\<close>, the base64 text of the bytes in lines of 64
  characters, each ended by a line feed, and the line \<^verbatim>\<open>-----END <Type>-----\<close>.
  Writing to a \<^verbatim>\<open>strings.Builder\<close> does not fail, and the check of the header keys
  has nothing to reject, so the call returns no error.\<close>

function breakLines :: "string \<Rightarrow> string" where
  "breakLines s = (if s = [] then [] else take 64 s @ [CHR 0x0A] @ breakLines (drop 64 s))"
  by pat_completeness auto
termination
  by (relation "measure length") auto

declare breakLines.simps [simp del]

definition pemBegin :: "string \<Rightarrow> string" where
  "pemBegin typ = ''-----BEGIN '' @ typ @ ''-----'' @ [CHR 0x0A]"

definition pemEnd :: "string \<Rightarrow> string" where
  "pemEnd typ = ''-----END '' @ typ @ ''-----'' @ [CHR 0x0A]"

definition pem_Encode :: "string \<Rightarrow> string \<Rightarrow> string" where
  "pem_Encode typ bytes = pemBegin typ @ breakLines (EncodeToString bytes) @ pemEnd typ"

section \<open>The libraries the tool calls\<close>

text \<open>
  \<^verbatim>\<open>x509.ParseCertificate\<close>, \<^verbatim>\<open>yaml.Unmarshal\<close>, \<^verbatim>\<open>yaml.Marshal\<close>
  and the JSON decoder are parameters of the model: \<open>parseCertificate\<close> tells whether the
  parser accepts the bytes (the tool discards the parsed certificate), the other three
  return \<open>None\<close> for an error.
\<close>

record lib =
  parseCertificate :: "string \<Rightarrow> bool"
  yaml_Unmarshal :: "string \<Rightarrow> object option"
  yaml_Marshal :: "object \<Rightarrow> string option"
  json_Decode :: "string \<Rightarrow> object option"

section \<open>\<^verbatim>\<open>convertToPEM\<close>\<close>

definition convertToPEM :: "lib \<Rightarrow> string \<Rightarrow> error + string" where
  "convertToPEM l cert =
     (if \<not> parseCertificate l cert then Inl CertificateRejected
      else Inr (pem_Encode ''CERTIFICATE'' cert))"

section \<open>Files\<close>

text \<open>
  A path names a regular file with its content, or nothing that could be created there
  (\<open>Missing\<close>), or nothing below a directory that does not exist (\<open>NoDir\<close>), or
  something the process may not touch (\<open>Locked\<close>).
\<close>

datatype node = Missing | NoDir | Locked | File string

type_synonym fs = "string \<Rightarrow> node"

datatype os_error = NotExist | OtherError

definition ReadFile :: "fs \<Rightarrow> string \<Rightarrow> os_error + string" where
  "ReadFile f name =
     (case f name of
        File data \<Rightarrow> Inr data
      | Locked \<Rightarrow> Inl OtherError
      | _ \<Rightarrow> Inl NotExist)"

definition WriteFile :: "fs \<Rightarrow> string \<Rightarrow> string \<Rightarrow> os_error + fs" where
  "WriteFile f name data =
     (case f name of
        NoDir \<Rightarrow> Inl NotExist
      | Locked \<Rightarrow> Inl OtherError
      | _ \<Rightarrow> Inr (f(name := File data)))"

definition Truncate :: "fs \<Rightarrow> string \<Rightarrow> os_error + fs" where
  "Truncate f name =
     (case f name of
        File data \<Rightarrow> Inr (f(name := File []))
      | Locked \<Rightarrow> Inl OtherError
      | _ \<Rightarrow> Inl NotExist)"

definition Create :: "fs \<Rightarrow> string \<Rightarrow> os_error + fs" where
  "Create f name =
     (case f name of
        NoDir \<Rightarrow> Inl NotExist
      | Locked \<Rightarrow> Inl OtherError
      | _ \<Rightarrow> Inr (f(name := File [])))"

definition copyFile :: "fs \<Rightarrow> string \<Rightarrow> string \<Rightarrow> os_error + fs" where
  "copyFile f src dst =
     (case ReadFile f src of
        Inl e \<Rightarrow> Inl e
      | Inr input \<Rightarrow> WriteFile f dst input)"

section \<open>\<^verbatim>\<open>updateYAML\<close> on the file\<close>

definition updateYAML ::
  "lib \<Rightarrow> fs \<Rightarrow> string \<Rightarrow> string \<Rightarrow> int \<Rightarrow> string \<Rightarrow> string \<Rightarrow> string \<Rightarrow> string \<Rightarrow> error + fs" where
  "updateYAML l f filename authority index organization commonName uri certChain =
     (case ReadFile f filename of
        Inl e \<Rightarrow> Inl ReadFailed
      | Inr data \<Rightarrow>
     (case yaml_Unmarshal l data of
        None \<Rightarrow> Inl ParseFailed
      | Some root \<Rightarrow>
     (case updateYAML_tree root authority index organization commonName uri certChain of
        Inl e \<Rightarrow> Inl e
      | Inr root' \<Rightarrow>
     (case yaml_Marshal l root' of
        None \<Rightarrow> Inl MarshalFailed
      | Some updatedData \<Rightarrow>
     (case WriteFile f filename updatedData of
        Inl e \<Rightarrow> Inl WriteFailed
      | Inr f' \<Rightarrow> Inr f')))))"

section \<open>The variant of the GitHub action\<close>

text \<open>
  \<^verbatim>\<open>.github/actions/assemble-offline-trustroot/main.go\<close> has a \<^verbatim>\<open>main\<close> of its
  own: it reads the same flags (\<^verbatim>\<open>output-trustroot-filename\<close> is the field
  \<open>outputFilepath\<close> here), works on a temporary copy of the template, converts with the
  \<^verbatim>\<open>openssl\<close> command and patches with the \<^verbatim>\<open>yq\<close> command. The two commands and
  the name that \<^verbatim>\<open>os.CreateTemp\<close> settles on are parameters: \<open>openssl\<close> gives the
  standard output of a run that exits with status 0, \<open>yq\<close> the text that
  \<^verbatim>\<open>yq eval\<close> leaves in place of the text it was given, and \<open>None\<close> is a failure.
\<close>

record tools =
  openssl :: "string \<Rightarrow> string option"
  yq :: "string \<Rightarrow> string \<Rightarrow> string option"
  tempName :: "string \<Rightarrow> string option"

definition convertToPEM_action :: "tools \<Rightarrow> string \<Rightarrow> error + string" where
  "convertToPEM_action t cert =
     (case openssl t cert of
        None \<Rightarrow> Inl CommandFailed
      | Some output \<Rightarrow> Inr output)"

text \<open>The verb \<^verbatim>\<open>%d\<close> of \<^verbatim>\<open>fmt.Sprintf\<close>.\<close>

fun decimal :: "nat \<Rightarrow> string" where
  "decimal n = (if n < 10 then [char_of (48 + n)] else decimal (n div 10) @ [char_of (48 + n mod 10)])"

declare decimal.simps [simp del]

definition Sprintf_d :: "int \<Rightarrow> string" where
  "Sprintf_d i = (if i < 0 then ''-'' @ decimal (nat (- i)) else decimal (nat i))"

text \<open>\<^verbatim>\<open>exec.Command("yq", "eval", expression, filename, "-i").Run()\<close>, whose error the
  program drops: a run that fails leaves the file as it was.\<close>

definition yq_eval :: "tools \<Rightarrow> fs \<Rightarrow> string \<Rightarrow> string \<Rightarrow> fs" where
  "yq_eval t f expression filename =
     (case ReadFile f filename of
        Inl e \<Rightarrow> f
      | Inr data \<Rightarrow>
     (case yq t expression data of
        None \<Rightarrow> f
      | Some data' \<Rightarrow>
     (case WriteFile f filename data' of
        Inl e \<Rightarrow> f
      | Inr f' \<Rightarrow> f')))"

definition updateYAML_action ::
  "tools \<Rightarrow> fs \<Rightarrow> string \<Rightarrow> string \<Rightarrow> int \<Rightarrow> string \<Rightarrow> string \<Rightarrow> string \<Rightarrow> string \<Rightarrow> fs" where
  "updateYAML_action t f filename authority index organization commonName uri certChain =
     (let element = ''.spec.sigstoreKeys.'' @ authority @ ''['' @ Sprintf_d index @ '']'';
          f1 = yq_eval t f (element @ ''.subject = {}'') filename;
          f2 = yq_eval t f1 (element @ ''.subject.organization = '' @ [CHR 0x22] @ organization @ [CHR 0x22]) filename;
          f3 = yq_eval t f2 (element @ ''.subject.commonName = '' @ [CHR 0x22] @ commonName @ [CHR 0x22]) filename;
          f4 = yq_eval t f3 (element @ ''.uri = '' @ [CHR 0x22] @ uri @ [CHR 0x22]) filename
      in yq_eval t f4 (element @ ''.certChain = '' @ [CHR 0x22] @ certChain @ [CHR 0x22]) filename)"

text \<open>\<^verbatim>\<open>os.CreateTemp\<close> creates a file that did not exist; \<^verbatim>\<open>os.Remove\<close> is
  deferred, and its error dropped.\<close>

definition CreateTemp :: "tools \<Rightarrow> fs \<Rightarrow> string \<Rightarrow> os_error + string \<times> fs" where
  "CreateTemp t f pattern =
     (case tempName t pattern of
        None \<Rightarrow> Inl OtherError
      | Some name \<Rightarrow>
     (case f name of
        Missing \<Rightarrow> Inr (name, f(name := File []))
      | _ \<Rightarrow> Inl OtherError))"

definition Remove :: "fs \<Rightarrow> string \<Rightarrow> fs" where
  "Remove f name =
     (case f name of
        File data \<Rightarrow> f(name := Missing)
      | _ \<Rightarrow> f)"

section \<open>The run: \<^verbatim>\<open>main\<close>\<close>

record flags =
  outputFilepath :: string
  templateFilePath :: string
  trustedRootPath :: string
  organization :: string
  commonName :: string
  uri :: string

text \<open>
  One constructor for each \<^verbatim>\<open>log.Printf\<close> and \<^verbatim>\<open>log.Fatalf\<close> of the
  program, with the arguments of its format string; the time stamp in front of a line is
  left out.
\<close>

datatype logmsg =
    TemplateFlagRequired
  | TrustedRootFlagRequired
  | TemplateFilePathIs string
  | TrustedRootPathIs string
  | OutputFilenameIs string
  | OrganizationIs string
  | CommonNameIs string
  | URIIs string
  | ErrorTruncating os_error
  | ErrorCreating os_error
  | ErrorCopyingTemplate os_error
  | ErrorOpeningTrustedRoot os_error
  | ErrorDecodingTrustedRoot
  | NoAuthoritiesFound string
  | ThereAre nat string
  | InvalidData string nat
  | NoCertChainFound string nat
  | NoCertificatesFound string nat
  | InvalidCertificateData string nat nat
  | NoRawBytesFound string nat nat
  | ErrorDecodingBase64 string nat nat b64error
  | ErrorConvertingToPEM string nat nat error
  | ErrorUpdatingYAML string nat error
  | ErrorCreatingTemporary os_error
  | ErrorReadingTemporary os_error
  | ErrorWritingOutput os_error
  | OutputWrittenTo string

text \<open>The body of the loop over the certificates of one entry, up to the
  \<^verbatim>\<open>WriteString\<close>: the PEM text of certificate \<open>j\<close>, or the line logged before
  \<^verbatim>\<open>continue\<close>.\<close>

definition certificatePEM :: "lib \<Rightarrow> string \<Rightarrow> nat \<Rightarrow> nat \<Rightarrow> val \<Rightarrow> logmsg + string" where
  "certificatePEM l authority i j c =
     (case asMap c of
        None \<Rightarrow> Inl (InvalidCertificateData authority i j)
      | Some cert \<Rightarrow>
     (case asString (index_map cert ''rawBytes'') of
        None \<Rightarrow> Inl (NoRawBytesFound authority i j)
      | Some rawBytes \<Rightarrow>
     (case DecodeString rawBytes of
        Inl err \<Rightarrow> Inl (ErrorDecodingBase64 authority i j err)
      | Inr decoded \<Rightarrow>
     (case convertToPEM l decoded of
        Inl err \<Rightarrow> Inl (ErrorConvertingToPEM authority i j err)
      | Inr pem \<Rightarrow> Inr pem))))"

text \<open>\<^verbatim>\<open>for j := 0; j < len(certificates); j++\<close>, on the certificates from position
  \<open>j\<close> on, with the builder \<open>pemData\<close> and the log so far.\<close>

fun certificatesLoop ::
  "lib \<Rightarrow> string \<Rightarrow> nat \<Rightarrow> val list \<Rightarrow> nat \<Rightarrow> string \<times> logmsg list \<Rightarrow> string \<times> logmsg list" where
  "certificatesLoop l authority i [] j (pemData, lg) = (pemData, lg)"
| "certificatesLoop l authority i (c # certificates) j (pemData, lg) =
     (case certificatePEM l authority i j c of
        Inl msg \<Rightarrow> certificatesLoop l authority i certificates (Suc j) (pemData, lg @ [msg])
      | Inr pem \<Rightarrow> certificatesLoop l authority i certificates (Suc j) (pemData @ pem, lg))"

text \<open>The state of a run: the files, the lines logged, and whether the run has panicked.\<close>

record world =
  files :: fs
  logged :: "logmsg list"
  panicked :: bool

text \<open>The three checks at the head of the loop over the entries: the certificates of
  entry \<open>i\<close>, or the line logged before \<^verbatim>\<open>continue\<close>.\<close>

definition entryCertificates :: "string \<Rightarrow> nat \<Rightarrow> val \<Rightarrow> logmsg + val list" where
  "entryCertificates authority i x =
     (case asMap x of
        None \<Rightarrow> Inl (InvalidData authority i)
      | Some authorityData \<Rightarrow>
     (case asMap (index_map authorityData ''certChain'') of
        None \<Rightarrow> Inl (NoCertChainFound authority i)
      | Some certChainData \<Rightarrow>
     (case asSlice (index_map certChainData ''certificates'') of
        None \<Rightarrow> Inl (NoCertificatesFound authority i)
      | Some certificates \<Rightarrow> Inr certificates)))"

text \<open>\<^verbatim>\<open>for i := 0; i < len(authorities); i++\<close>, on the entries from position \<open>i\<close>
  on. A panic inside \<^verbatim>\<open>updateYAML\<close> ends the run; its other errors are logged.\<close>

fun authoritiesLoop :: "lib \<Rightarrow> flags \<Rightarrow> string \<Rightarrow> val list \<Rightarrow> nat \<Rightarrow> world \<Rightarrow> world" where
  "authoritiesLoop l fl authority [] i w = w"
| "authoritiesLoop l fl authority (x # authorities) i w =
     (case entryCertificates authority i x of
        Inl msg \<Rightarrow> authoritiesLoop l fl authority authorities (Suc i) (w\<lparr>logged := logged w @ [msg]\<rparr>)
      | Inr certificates \<Rightarrow>
          (let (pemData, lg) = certificatesLoop l authority i certificates 0 ([], logged w);
               certChain = EncodeToString pemData
           in case updateYAML l (files w) (outputFilepath fl) authority (int i)
                     (organization fl) (commonName fl) (uri fl) certChain of
                Inl Panic \<Rightarrow> w\<lparr>logged := lg, panicked := True\<rparr>
              | Inl err \<Rightarrow>
                  authoritiesLoop l fl authority authorities (Suc i)
                    (w\<lparr>logged := lg @ [ErrorUpdatingYAML authority i err]\<rparr>)
              | Inr f' \<Rightarrow>
                  authoritiesLoop l fl authority authorities (Suc i) (w\<lparr>files := f', logged := lg\<rparr>)))"

text \<open>\<^verbatim>\<open>for _, authority := range []string{"certificateAuthorities", "timestampAuthorities"}\<close>\<close>

fun kindsLoop :: "lib \<Rightarrow> flags \<Rightarrow> object \<Rightarrow> string list \<Rightarrow> world \<Rightarrow> world" where
  "kindsLoop l fl trustedRoot [] w = w"
| "kindsLoop l fl trustedRoot (authority # kinds) w =
     (case asSlice (index_map trustedRoot authority) of
        None \<Rightarrow> kindsLoop l fl trustedRoot kinds (w\<lparr>logged := logged w @ [NoAuthoritiesFound authority]\<rparr>)
      | Some authorities \<Rightarrow>
          (let w' = authoritiesLoop l fl authority authorities 0
                      (w\<lparr>logged := logged w @ [ThereAre (length authorities) authority]\<rparr>)
           in if panicked w' then w' else kindsLoop l fl trustedRoot kinds w'))"

text \<open>The exit status: 0 at the end of \<^verbatim>\<open>main\<close>, 1 from \<^verbatim>\<open>log.Fatalf\<close>,
  2 from a panic.\<close>

definition fatal :: "fs \<Rightarrow> logmsg list \<Rightarrow> nat \<times> fs \<times> logmsg list" where
  "fatal f lg = (1, f, lg)"

definition main :: "lib \<Rightarrow> flags \<Rightarrow> fs \<Rightarrow> nat \<times> fs \<times> logmsg list" where
  "main l fl f =
     (if templateFilePath fl = [] then fatal f [TemplateFlagRequired]
      else if trustedRootPath fl = [] then fatal f [TrustedRootFlagRequired]
      else
        let lg = [TemplateFilePathIs (templateFilePath fl), TrustedRootPathIs (trustedRootPath fl),
                  OutputFilenameIs (outputFilepath fl), OrganizationIs (organization fl),
                  CommonNameIs (commonName fl), URIIs (uri fl)]
        in
        case (case Truncate f (outputFilepath fl) of
                Inr f1 \<Rightarrow> Inr f1
              | Inl OtherError \<Rightarrow> Inl (ErrorTruncating OtherError)
              | Inl NotExist \<Rightarrow>
                  (case Create f (outputFilepath fl) of
                     Inl err \<Rightarrow> Inl (ErrorCreating err)
                   | Inr f1 \<Rightarrow> Inr f1)) of
          Inl msg \<Rightarrow> fatal f (lg @ [msg])
        | Inr f1 \<Rightarrow>
        (case copyFile f1 (templateFilePath fl) (outputFilepath fl) of
          Inl err \<Rightarrow> fatal f1 (lg @ [ErrorCopyingTemplate err])
        | Inr f2 \<Rightarrow>
        (case ReadFile f2 (trustedRootPath fl) of
          Inl err \<Rightarrow> fatal f2 (lg @ [ErrorOpeningTrustedRoot err])
        | Inr text \<Rightarrow>
        (case json_Decode l text of
          None \<Rightarrow> fatal f2 (lg @ [ErrorDecodingTrustedRoot])
        | Some trustedRoot \<Rightarrow>
            (let w = kindsLoop l fl trustedRoot [''certificateAuthorities'', ''timestampAuthorities'']
                       \<lparr>files = f2, logged = lg, panicked = False\<rparr>
             in if panicked w then (2, files w, logged w)
                else (0, files w, logged w @ [OutputWrittenTo (outputFilepath fl)]))))))"

section \<open>The run of the action's variant\<close>

definition certificatePEM_action :: "tools \<Rightarrow> string \<Rightarrow> nat \<Rightarrow> nat \<Rightarrow> val \<Rightarrow> logmsg + string" where
  "certificatePEM_action t authority i j c =
     (case asMap c of
        None \<Rightarrow> Inl (InvalidCertificateData authority i j)
      | Some cert \<Rightarrow>
     (case asString (index_map cert ''rawBytes'') of
        None \<Rightarrow> Inl (NoRawBytesFound authority i j)
      | Some rawBytes \<Rightarrow>
     (case DecodeString rawBytes of
        Inl err \<Rightarrow> Inl (ErrorDecodingBase64 authority i j err)
      | Inr decoded \<Rightarrow>
     (case convertToPEM_action t decoded of
        Inl err \<Rightarrow> Inl (ErrorConvertingToPEM authority i j err)
      | Inr pem \<Rightarrow> Inr pem))))"

fun certificatesLoop_action ::
  "tools \<Rightarrow> string \<Rightarrow> nat \<Rightarrow> val list \<Rightarrow> nat \<Rightarrow> string \<times> logmsg list \<Rightarrow> string \<times> logmsg list" where
  "certificatesLoop_action t authority i [] j (pemData, lg) = (pemData, lg)"
| "certificatesLoop_action t authority i (c # certificates) j (pemData, lg) =
     (case certificatePEM_action t authority i j c of
        Inl msg \<Rightarrow> certificatesLoop_action t authority i certificates (Suc j) (pemData, lg @ [msg])
      | Inr pem \<Rightarrow> certificatesLoop_action t authority i certificates (Suc j) (pemData @ pem, lg))"

fun authoritiesLoop_action ::
  "tools \<Rightarrow> flags \<Rightarrow> string \<Rightarrow> string \<Rightarrow> val list \<Rightarrow> nat \<Rightarrow> fs \<times> logmsg list \<Rightarrow> fs \<times> logmsg list" where
  "authoritiesLoop_action t fl tempFile authority [] i (f, lg) = (f, lg)"
| "authoritiesLoop_action t fl tempFile authority (x # authorities) i (f, lg) =
     (case entryCertificates authority i x of
        Inl msg \<Rightarrow> authoritiesLoop_action t fl tempFile authority authorities (Suc i) (f, lg @ [msg])
      | Inr certificates \<Rightarrow>
          (let (pemData, lg') = certificatesLoop_action t authority i certificates 0 ([], lg);
               certChain = EncodeToString pemData
           in authoritiesLoop_action t fl tempFile authority authorities (Suc i)
                (updateYAML_action t f tempFile authority (int i)
                   (organization fl) (commonName fl) (uri fl) certChain, lg')))"

fun kindsLoop_action ::
  "tools \<Rightarrow> flags \<Rightarrow> string \<Rightarrow> object \<Rightarrow> string list \<Rightarrow> fs \<times> logmsg list \<Rightarrow> fs \<times> logmsg list" where
  "kindsLoop_action t fl tempFile trustedRoot [] (f, lg) = (f, lg)"
| "kindsLoop_action t fl tempFile trustedRoot (authority # kinds) (f, lg) =
     (case asSlice (index_map trustedRoot authority) of
        None \<Rightarrow> kindsLoop_action t fl tempFile trustedRoot kinds (f, lg @ [NoAuthoritiesFound authority])
      | Some authorities \<Rightarrow>
          kindsLoop_action t fl tempFile trustedRoot kinds
            (authoritiesLoop_action t fl tempFile authority authorities 0
               (f, lg @ [ThereAre (length authorities) authority])))"

definition main_action :: "tools \<Rightarrow> lib \<Rightarrow> flags \<Rightarrow> fs \<Rightarrow> nat \<times> fs \<times> logmsg list" where
  "main_action t l fl f =
     (if templateFilePath fl = [] then fatal f [TemplateFlagRequired]
      else if trustedRootPath fl = [] then fatal f [TrustedRootFlagRequired]
      else
        let lg = [TemplateFilePathIs (templateFilePath fl), TrustedRootPathIs (trustedRootPath fl),
                  OutputFilenameIs (outputFilepath fl), OrganizationIs (organization fl),
                  CommonNameIs (commonName fl), URIIs (uri fl)]
        in
        case ReadFile f (trustedRootPath fl) of
          Inl err \<Rightarrow> fatal f (lg @ [ErrorOpeningTrustedRoot err])
        | Inr text \<Rightarrow>
        (case json_Decode l text of
          None \<Rightarrow> fatal f (lg @ [ErrorDecodingTrustedRoot])
        | Some trustedRoot \<Rightarrow>
        (case CreateTemp t f (outputFilepath fl @ ''-*.yaml'') of
          Inl err \<Rightarrow> fatal f (lg @ [ErrorCreatingTemporary err])
        | Inr (tempFile, f1) \<Rightarrow>
        (case copyFile f1 (templateFilePath fl) tempFile of
          Inl err \<Rightarrow> fatal f1 (lg @ [ErrorCopyingTemplate err])
        | Inr f2 \<Rightarrow>
            (let (f3, lg3) = kindsLoop_action t fl tempFile trustedRoot
                               [''certificateAuthorities'', ''timestampAuthorities''] (f2, lg)
             in case ReadFile f3 tempFile of
                  Inl err \<Rightarrow> fatal f3 (lg3 @ [ErrorReadingTemporary err])
                | Inr finalContent \<Rightarrow>
                (case WriteFile f3 (outputFilepath fl) finalContent of
                  Inl err \<Rightarrow> fatal f3 (lg3 @ [ErrorWritingOutput err])
                | Inr f4 \<Rightarrow>
                    (0, Remove f4 tempFile, lg3 @ [OutputWrittenTo (outputFilepath fl)])))))))"

section \<open>What the claims say of one certificate\<close>

text \<open>
  The PEM block of a certificate of the trusted root, as the specification words it: the
  certificate is a mapping, its \<^verbatim>\<open>rawBytes\<close> is a string, the string decodes as
  base64, and the X.509 parser accepts the decoded bytes; then the block is the PEM
  encoding of these bytes under the type \<^verbatim>\<open>CERTIFICATE\<close>.
\<close>

definition pemBlockOf :: "lib \<Rightarrow> val \<Rightarrow> string option" where
  "pemBlockOf l c =
     (case asMap c of
        None \<Rightarrow> None
      | Some cert \<Rightarrow>
     (case asString (index_map cert ''rawBytes'') of
        None \<Rightarrow> None
      | Some rawBytes \<Rightarrow>
     (case DecodeString rawBytes of
        Inl err \<Rightarrow> None
      | Inr der \<Rightarrow>
          if parseCertificate l der then Some (pem_Encode ''CERTIFICATE'' der) else None)))"

text \<open>A certificate fails: it is not a mapping, or its \<^verbatim>\<open>rawBytes\<close> is missing or
  not a string, or the base64 decoding fails, or the parser rejects the bytes.\<close>

definition certificateFails :: "lib \<Rightarrow> val \<Rightarrow> bool" where
  "certificateFails l c =
     (case asMap c of
        None \<Rightarrow> True
      | Some cert \<Rightarrow>
     (case asString (index_map cert ''rawBytes'') of
        None \<Rightarrow> True
      | Some rawBytes \<Rightarrow>
     (case DecodeString rawBytes of
        Inl err \<Rightarrow> True
      | Inr der \<Rightarrow> \<not> parseCertificate l der)))"

section \<open>Example documents\<close>

text \<open>A template whose \<^verbatim>\<open>certificateAuthorities\<close> has one element, and a template
  whose \<^verbatim>\<open>sigstoreKeys\<close> is an empty mapping.\<close>

definition templateOne :: object where
  "templateOne =
     fmupd ''spec'' (StrMap (fmupd ''sigstoreKeys''
       (StrMap (fmupd ''certificateAuthorities'' (Slice [String ''first'']) fmempty)) fmempty))
       (fmupd ''kind'' (String ''TrustRoot'') fmempty)"

definition templateNoKeys :: object where
  "templateNoKeys =
     fmupd ''spec'' (StrMap (fmupd ''sigstoreKeys'' (StrMap fmempty) fmempty))
       (fmupd ''kind'' (String ''TrustRoot'') fmempty)"

text \<open>A template with a note beside \<^verbatim>\<open>spec\<close>, a second key under
  \<^verbatim>\<open>spec\<close> and under \<^verbatim>\<open>sigstoreKeys\<close>, and two authorities: a mapping with a
  field of its own, and a string.\<close>

definition templateFull :: object where
  "templateFull =
     fmupd ''spec'' (StrMap
       (fmupd ''sigstoreKeys'' (StrMap
          (fmupd ''certificateAuthorities''
             (Slice [StrMap (fmupd ''note'' (String ''keep'') (fmupd ''uri'' (String ''old'') fmempty)),
                     String ''second''])
          (fmupd ''tLogs'' (Slice []) fmempty)))
       (fmupd ''repository'' (String ''none'') fmempty)))
       (fmupd ''kind'' (String ''TrustRoot'') fmempty)"

text \<open>A template whose first authority is a mapping with a key that is not a string:
  \<^verbatim>\<open>yaml.Unmarshal\<close> gives such a mapping the type
  \<^verbatim>\<open>map[interface{}]interface{}\<close>.\<close>

definition templateGeneral :: object where
  "templateGeneral =
     fmupd ''spec'' (StrMap (fmupd ''sigstoreKeys''
       (StrMap (fmupd ''certificateAuthorities''
          (Slice [AnyMap [(String ''note'', String ''keep''), (Integer 1, String ''legacy'')]]) fmempty))
       fmempty))
       (fmupd ''kind'' (String ''TrustRoot'') fmempty)"

text \<open>Three certificates: the bytes \<^verbatim>\<open>0ab\<close>, a text that is not base64, and the
  bytes \<^verbatim>\<open>0c\<close>.\<close>

definition certA :: val where
  "certA = StrMap (fmupd ''rawBytes'' (String ''MGFi'') fmempty)"

definition certBad :: val where
  "certBad = StrMap (fmupd ''rawBytes'' (String ''!!'') fmempty)"

definition certB :: val where
  "certB = StrMap (fmupd ''rawBytes'' (String ''MGM='') fmempty)"

text \<open>Entries of a trusted root: one with the three certificates and one with no
  certificate that converts; and a trusted root whose \<^verbatim>\<open>certificateAuthorities\<close>
  are a string and the first of these entries.\<close>

definition entryOfCertificates :: "val list \<Rightarrow> val" where
  "entryOfCertificates certificates =
     StrMap (fmupd ''certChain'' (StrMap (fmupd ''certificates'' (Slice certificates) fmempty)) fmempty)"

definition entryGood :: val where
  "entryGood = entryOfCertificates [certA, certBad, certB]"

definition entryAllBad :: val where
  "entryAllBad = entryOfCertificates [certBad, String ''MGFi'']"

definition exampleTrustedRoot :: object where
  "exampleTrustedRoot = fmupd ''certificateAuthorities'' (Slice [String ''junk'', entryGood]) fmempty"

text \<open>Libraries for the examples: a parser that accepts the byte strings starting with the
  DER tag of a sequence (\<^verbatim>\<open>0x30\<close>), a YAML library that reads the texts
  \<^verbatim>\<open>one\<close>, \<^verbatim>\<open>full\<close> and \<^verbatim>\<open>general\<close> as the templates of these names and
  every other text as \<open>templateNoKeys\<close>, and writes every tree as the same text, and a
  JSON decoder that reads every text as \<open>exampleTrustedRoot\<close>.\<close>

definition exampleLib :: lib where
  "exampleLib =
     \<lparr>parseCertificate = (\<lambda>der. take 1 der = [CHR 0x30]),
      yaml_Unmarshal = (\<lambda>data. if data = ''one'' then Some templateOne
                                else if data = ''full'' then Some templateFull
                                else if data = ''general'' then Some templateGeneral
                                else Some templateNoKeys),
      yaml_Marshal = (\<lambda>root. Some ''patched''),
      json_Decode = (\<lambda>data. Some exampleTrustedRoot)\<rparr>"

text \<open>The flags and the files of the examples.\<close>

definition exampleFlags :: flags where
  "exampleFlags =
     \<lparr>outputFilepath = ''out.yaml'', templateFilePath = ''template.yaml'',
      trustedRootPath = ''root.json'', organization = ''o'', commonName = ''c'', uri = ''u''\<rparr>"

definition exampleFiles :: fs where
  "exampleFiles =
     (\<lambda>name. Missing)
       (''template.yaml'' := File ''template'', ''root.json'' := File ''json'',
        ''one.yaml'' := File ''one'', ''full.yaml'' := File ''full'',
        ''general.yaml'' := File ''general'')"

text \<open>A YAML library that knows one document, \<open>templateNoKeys\<close> patched at index 0 of
  \<^verbatim>\<open>certificateAuthorities\<close>, under the text \<^verbatim>\<open>patched\<close>; it reads every
  other text as \<open>templateNoKeys\<close> and writes no other document.\<close>

definition patchedDocument :: object where
  "patchedDocument =
     (case updateYAML_tree templateNoKeys ''certificateAuthorities'' 0 ''o'' ''c'' ''u'' ''Y2M='' of
        Inl e \<Rightarrow> templateNoKeys
      | Inr root' \<Rightarrow> root')"

definition roundTripLib :: lib where
  "roundTripLib =
     \<lparr>parseCertificate = (\<lambda>der. take 1 der = [CHR 0x30]),
      yaml_Unmarshal = (\<lambda>data. if data = ''patched'' then Some patchedDocument else Some templateNoKeys),
      yaml_Marshal = (\<lambda>root. if root = patchedDocument then Some ''patched'' else None),
      json_Decode = (\<lambda>data. Some exampleTrustedRoot)\<rparr>"

section \<open>Properties of the tree patcher\<close>

lemma grow_eq:
  "grow l i = l @ replicate (nat (i + 1 - int (length l))) (StrMap fmempty)"
proof (induction l i rule: grow.induct)
  case (1 l i)
  show ?case
  proof (cases "int (length l) \<le> i")
    case True
    then have n: "nat (i + 1 - int (length l)) = Suc (nat (i + 1 - int (length (l @ [StrMap fmempty]))))"
      by simp
    have "grow l i = grow (l @ [StrMap fmempty]) i"
      using True by (subst grow.simps) simp
    also have "\<dots> = (l @ [StrMap fmempty]) @
        replicate (nat (i + 1 - int (length (l @ [StrMap fmempty])))) (StrMap fmempty)"
      using "1.IH" True by blast
    also have "\<dots> = l @ replicate (nat (i + 1 - int (length l))) (StrMap fmempty)"
      unfolding n by simp
    finally show ?thesis .
  next
    case False
    then show ?thesis by (subst grow.simps) simp
  qed
qed

lemma length_grow: "length (grow l i) = max (length l) (nat (i + 1))"
  by (simp add: grow_eq)

lemma updateYAML_tree_Inr:
  assumes "asMap (index_map root ''spec'') = Some spec"
    and "asMap (index_map spec ''sigstoreKeys'') = Some sk"
    and "0 \<le> index" and "index < maxInt"
  shows "updateYAML_tree root authority index org cn u certChain =
     Inr (fmupd ''spec'' (StrMap (fmupd ''sigstoreKeys'' (StrMap
       (fmupd authority (Slice (patchList sk authority index org cn u certChain)) sk)) spec)) root)"
  using assms by (simp add: updateYAML_tree_def Let_def)

lemma updateYAML_tree_InrE:
  assumes "updateYAML_tree root authority index org cn u certChain = Inr root'"
  obtains spec sk where "asMap (index_map root ''spec'') = Some spec"
    and "asMap (index_map spec ''sigstoreKeys'') = Some sk"
    and "0 \<le> index" and "index < maxInt"
    and "root' = fmupd ''spec'' (StrMap (fmupd ''sigstoreKeys'' (StrMap
           (fmupd authority (Slice (patchList sk authority index org cn u certChain)) sk)) spec)) root"
  using assms
  by (auto simp: updateYAML_tree_def Let_def split: option.splits if_splits)

lemma authorityValue_updated:
  "authorityValue (fmupd ''spec'' (StrMap (fmupd ''sigstoreKeys'' (StrMap (fmupd a v sk)) spec)) root) a
     = Some v"
  by (simp add: authorityValue_def sigstoreKeysOf_def index_map_def)

lemma length_patchList:
  "0 \<le> index \<Longrightarrow>
   length (patchList sk authority index org cn u certChain) =
     max (length (getOrCreate sk authority index)) (nat (index + 1))"
  by (simp add: patchList_def Let_def length_grow)

lemma patchList_nth_index:
  "0 \<le> index \<Longrightarrow>
   patchList sk authority index org cn u certChain ! nat index =
     StrMap (updateEntry (grow (getOrCreate sk authority index) index ! nat index) org cn u certChain)"
  by (simp add: patchList_def Let_def length_grow)

lemma patchList_nth_other:
  "j \<noteq> nat index \<Longrightarrow>
   patchList sk authority index org cn u certChain ! j = grow (getOrCreate sk authority index) index ! j"
  by (simp add: patchList_def Let_def)

lemma updateYAML_tree_grows:
  assumes "authorityValue root authority = Some (Slice l)"
    and "int (length l) < k + 1" and "k < maxInt"
  shows "\<exists>root' l'. updateYAML_tree root authority k org cn u certChain = Inr root'
           \<and> authorityValue root' authority = Some (Slice l')
           \<and> int (length l') = k + 1
           \<and> (\<forall>j < length l. l' ! j = l ! j)
           \<and> (\<forall>j. length l \<le> j \<and> int j < k \<longrightarrow> l' ! j = StrMap fmempty)"
proof -
  from assms(1) obtain spec sk where
    spec: "asMap (index_map root ''spec'') = Some spec" and
    sk: "asMap (index_map spec ''sigstoreKeys'') = Some sk" and
    l: "index_map sk authority = Slice l"
    by (auto simp: authorityValue_def sigstoreKeysOf_def split: option.splits)
  have k0: "0 \<le> k" using assms(2) by linarith
  have g: "getOrCreate sk authority k = l" by (simp add: getOrCreate_def l)
  define l' where "l' = patchList sk authority k org cn u certChain"
  have res: "updateYAML_tree root authority k org cn u certChain =
      Inr (fmupd ''spec'' (StrMap (fmupd ''sigstoreKeys'' (StrMap (fmupd authority (Slice l') sk)) spec)) root)"
    using updateYAML_tree_Inr [OF spec sk k0 assms(3)] by (simp add: l'_def)
  have len: "int (length l') = k + 1"
    using assms(2) k0 by (simp add: l'_def length_patchList g)
  have low: "\<forall>j < length l. l' ! j = l ! j"
    using assms(2) by (auto simp: l'_def patchList_nth_other g grow_eq nth_append)
  have pad: "\<forall>j. length l \<le> j \<and> int j < k \<longrightarrow> l' ! j = StrMap fmempty"
    using assms(2) by (auto simp: l'_def patchList_nth_other g grow_eq nth_append)
  show ?thesis
    using res len low pad authorityValue_updated by blast
qed

text \<open>
  C1. The claim: where the sequence of the authority kind is absent or not a sequence,
  the fresh sequence has length \<open>index + 1\<close> and an empty mapping at every position below
  \<open>index\<close>. The program allocates the fresh sequence with \<^verbatim>\<open>make\<close>, whose
  elements are \<^verbatim>\<open>nil\<close>, and only position \<open>index\<close> is replaced: patching index 1
  of a document without \<^verbatim>\<open>certificateAuthorities\<close> leaves \<^verbatim>\<open>nil\<close> at
  position 0, where the growing loop of the same function would have appended an empty
  mapping.
\<close>

theorem updateYAML_fresh_sequence_holds_nil:
  "(case updateYAML_tree templateNoKeys ''certificateAuthorities'' 1 ''o'' ''c'' ''u'' ''Y2M='' of
      Inl e \<Rightarrow> False
    | Inr root' \<Rightarrow>
        authorityValue root' ''certificateAuthorities'' =
          Some (Slice [Null,
            StrMap (fmupd ''certChain'' (String ''Y2M='')
              (fmupd ''uri'' (String ''u'')
                (fmupd ''subject''
                   (StrMap (fmupd ''commonName'' (String ''c'')
                      (fmupd ''organization'' (String ''o'') fmempty)))
                   fmempty)))]))
   \<and> Null \<noteq> StrMap fmempty"
  by (simp add: updateYAML_tree_def patchList_def getOrCreate_def updateEntry_def
      templateNoKeys_def index_map_def maxInt_def grow_eq
      authorityValue_def sigstoreKeysOf_def Let_def eval_nat_numeral)

section \<open>Base64 and PEM: decoding inverts encoding\<close>

lemma length_encodeStd: "length encodeStd = 64"
  by (simp add: encodeStd_def)

lemma distinct_encodeStd: "distinct encodeStd"
  by (simp add: encodeStd_def)

lemma indexOf_nth: "distinct xs \<Longrightarrow> n < length xs \<Longrightarrow> indexOf (xs ! n) xs = Some n"
proof (induction xs arbitrary: n)
  case Nil
  then show ?case by simp
next
  case (Cons x xs)
  show ?case
  proof (cases n)
    case 0
    then show ?thesis by simp
  next
    case (Suc m)
    with Cons.prems have "xs ! m \<noteq> x" "m < length xs" "distinct xs" by auto
    with Cons.IH [of m] Suc show ?thesis by simp
  qed
qed

lemma decodeMap_encode: "n < 64 \<Longrightarrow> decodeMap (encode n) = Some n"
  by (simp add: decodeMap_def encode_def indexOf_nth distinct_encodeStd length_encodeStd)

lemma decodeMap_encode_mod [simp]: "decodeMap (encode (n mod 64)) = Some (n mod 64)"
  by (rule decodeMap_encode) simp

lemma decodeMap_padChar [simp]: "decodeMap padChar = None"
  by (simp add: decodeMap_def padChar_def encodeStd_def)

lemma of_char_less: "(of_char c :: nat) < 256"
proof -
  have "(of_char c :: nat) mod 256 < 256" by simp
  then show ?thesis by (simp only: of_char_mod_256)
qed

lemma char_of_byte: "n mod 256 = of_char c \<Longrightarrow> char_of (n :: nat) = c"
proof -
  assume "n mod 256 = of_char c"
  then have "char_of (n mod 256) = char_of (of_char c :: nat)" by simp
  then show ?thesis by (simp only: char_of_mod_256 char_of_char)
qed


lemma sextets:
  fixes v :: nat
  assumes "v < 16777216"
  shows "(v div 262144 mod 64) * 262144 + (v div 4096 mod 64) * 4096 + (v div 64 mod 64) * 64 + v mod 64 = v"
proof -
  have q2: "v div 4096 = v div 64 div 64" and q3: "v div 262144 = v div 64 div 64 div 64"
    by (simp_all add: div_mult2_eq [symmetric])
  have small: "v div 64 div 64 div 64 < 64"
    using assms by (simp add: div_mult2_eq [symmetric] less_mult_imp_div_less)
  have e0: "v = v div 64 * 64 + v mod 64" by simp
  have e1: "v div 64 = v div 64 div 64 * 64 + v div 64 mod 64" by simp
  have e2: "v div 64 div 64 = v div 64 div 64 div 64 * 64 + v div 64 div 64 mod 64" by simp
  have e3: "v div 64 div 64 div 64 mod 64 = v div 64 div 64 div 64" using small by simp
  show ?thesis
    unfolding q2 q3 e3 using e0 e1 e2 by linarith
qed

lemma bytes3:
  fixes a b c :: nat
  assumes "a < 256" "b < 256" "c < 256"
  shows "(a * 65536 + b * 256 + c) div 65536 = a"
    and "(a * 65536 + b * 256 + c) div 256 mod 256 = b"
    and "(a * 65536 + b * 256 + c) mod 256 = c"
    and "a * 65536 + b * 256 + c < 16777216"
proof -
  have f: "a * 65536 + b * 256 + c = (a * 256 + b) * 256 + c" by simp
  have d: "((a * 256 + b) * 256 + c) div 256 = a * 256 + b" using assms(3) by simp
  have m: "(a * 256 + b) mod 256 = b" using assms(2) by simp
  show "(a * 65536 + b * 256 + c) div 65536 = a" using assms by simp
  show "(a * 65536 + b * 256 + c) div 256 mod 256 = b"
    by (simp only: f d m)
  have m2: "((a * 256 + b) * 256 + c) mod 256 = c"
    using assms(3) by (simp only: mod_mult_self3 mod_less)
  show "(a * 65536 + b * 256 + c) mod 256 = c"
    by (simp only: f m2)
  show "a * 65536 + b * 256 + c < 16777216" using assms by simp
qed

lemma bytes2:
  fixes a b :: nat
  assumes "a < 256" "b < 256"
  shows "(a * 65536 + b * 256) div 65536 = a"
    and "(a * 65536 + b * 256) div 256 mod 256 = b"
    and "(a * 65536 + b * 256) mod 64 = 0"
    and "a * 65536 + b * 256 < 16777216"
proof -
  show "(a * 65536 + b * 256) div 65536 = a" "(a * 65536 + b * 256) div 256 mod 256 = b"
    "a * 65536 + b * 256 < 16777216"
    using bytes3 [OF assms, of 0] by simp_all
  have "a * 65536 + b * 256 = (a * 1024 + b * 4) * 64" by simp
  then show "(a * 65536 + b * 256) mod 64 = 0" by (simp only: mod_mult_self2_is_0)
qed

lemma bytes1:
  fixes a :: nat
  assumes "a < 256"
  shows "(a * 65536) div 65536 = a"
    and "(a * 65536) mod 4096 = 0" and "(a * 65536) mod 64 = 0"
    and "a * 65536 < 16777216" and "(a * 65536) div 64 mod 64 = 0"
proof -
  have "a * 65536 div 64 = (a * 16) * 64" by simp
  then show "(a * 65536) div 64 mod 64 = 0" by (simp only: mod_mult_self2_is_0)
  show "(a * 65536) div 65536 = a" "a * 65536 < 16777216" using assms by simp_all
  have "a * 65536 = (a * 16) * 4096" by simp
  then show "(a * 65536) mod 4096 = 0" by (simp only: mod_mult_self2_is_0)
  have "a * 65536 = (a * 1024) * 64" by simp
  then show "(a * 65536) mod 64 = 0" by (simp only: mod_mult_self2_is_0)
qed


lemma decode_full_quantum:
  fixes x y z :: char
  defines "v \<equiv> (of_char x :: nat) * 2 ^ 16 + of_char y * 2 ^ 8 + of_char z"
  shows "decodeQuanta (encode (v div 2 ^ 18 mod 64) # encode (v div 2 ^ 12 mod 64) #
            encode (v div 2 ^ 6 mod 64) # encode (v mod 64) # rest) =
         (case decodeQuanta rest of Inl e \<Rightarrow> Inl e | Inr dst \<Rightarrow> Inr (x # y # z # dst))"
proof -
  have v: "v = of_char x * 65536 + of_char y * 256 + of_char z" by (simp add: v_def)
  note b = bytes3 [OF of_char_less of_char_less of_char_less, of x y z, folded v]
  have s: "(v div 262144 mod 64) * 262144 + (v div 4096 mod 64) * 4096 + (v div 64 mod 64) * 64 + v mod 64 = v"
    by (rule sextets) (rule b(4))
  have c0: "char_of (v div 65536) = x" by (rule char_of_byte) (simp add: b(1))
  have c1: "char_of (v div 256) = y" by (rule char_of_byte) (simp add: b(2))
  have c2: "char_of v = z" by (rule char_of_byte) (simp add: b(3))
  show ?thesis
    by (simp add: s c0 c1 c2 split: sum.split)
qed


lemma decode_two_bytes:
  fixes x y :: char
  defines "v \<equiv> (of_char x :: nat) * 2 ^ 16 + of_char y * 2 ^ 8"
  shows "decodeQuanta [encode (v div 2 ^ 18 mod 64), encode (v div 2 ^ 12 mod 64),
            encode (v div 2 ^ 6 mod 64), padChar] = Inr [x, y]"
proof -
  have v: "v = of_char x * 65536 + of_char y * 256" by (simp add: v_def)
  note b = bytes2 [OF of_char_less of_char_less, of x y, folded v]
  have s: "(v div 262144 mod 64) * 262144 + (v div 4096 mod 64) * 4096 + (v div 64 mod 64) * 64 = v"
    using sextets [OF b(4)] b(3) by linarith
  have c0: "char_of (v div 65536) = x" by (rule char_of_byte) (simp add: b(1))
  have c1: "char_of (v div 256) = y" by (rule char_of_byte) (simp add: b(2))
  show ?thesis
    by (simp add: s c0 c1 Let_def)
qed

lemma decode_one_byte:
  fixes x :: char
  defines "v \<equiv> (of_char x :: nat) * 2 ^ 16"
  shows "decodeQuanta [encode (v div 2 ^ 18 mod 64), encode (v div 2 ^ 12 mod 64),
            padChar, padChar] = Inr [x]"
proof -
  have v: "v = of_char x * 65536" by (simp add: v_def)
  note b = bytes1 [OF of_char_less, of x, folded v]
  have s: "(v div 262144 mod 64) * 262144 + (v div 4096 mod 64) * 4096 = v"
    using sextets [OF b(4)] b(3) b(5) by linarith
  have c0: "char_of (v div 65536) = x" by (rule char_of_byte) (simp add: b(1))
  show ?thesis
    by (simp add: s c0)
qed

lemma decodeQuanta_EncodeToString: "decodeQuanta (EncodeToString src) = Inr src"
proof (induction src rule: EncodeToString.induct)
  case (1 a b c src)
  show ?case
    using decode_full_quantum [of a b c "EncodeToString src"] 1
    by (simp add: Let_def)
next
  case (2 a b)
  show ?case using decode_two_bytes [of a b] by (simp add: Let_def)
next
  case (3 a)
  show ?case using decode_one_byte [of a] by (simp add: Let_def)
next
  case 4
  show ?case by simp
qed

lemma encode_not_newline: "\<not> isNewline (encode (n mod 64))"
proof -
  have "encode (n mod 64) \<in> set encodeStd"
    by (simp add: encode_def length_encodeStd)
  moreover have "CHR 0x0A \<notin> set encodeStd" "CHR 0x0D \<notin> set encodeStd"
    by (simp_all add: encodeStd_def)
  ultimately show ?thesis by (auto simp: isNewline_def)
qed

lemma padChar_not_newline: "\<not> isNewline padChar"
  by (simp add: isNewline_def padChar_def)

lemma EncodeToString_no_newline: "filter (\<lambda>c. \<not> isNewline c) (EncodeToString src) = EncodeToString src"
  by (induction src rule: EncodeToString.induct)
     (simp_all add: Let_def encode_not_newline padChar_not_newline)

lemma DecodeString_EncodeToString: "DecodeString (EncodeToString src) = Inr src"
  by (simp add: DecodeString_def EncodeToString_no_newline decodeQuanta_EncodeToString)

lemma breakLines_filter: "filter (\<lambda>c. \<not> isNewline c) (breakLines s) = filter (\<lambda>c. \<not> isNewline c) s"
proof (induction s rule: breakLines.induct)
  case (1 s)
  show ?case
  proof (cases "s = []")
    case True
    then show ?thesis by (subst breakLines.simps) simp
  next
    case False
    have "filter (\<lambda>c. \<not> isNewline c) (breakLines s) =
        filter (\<lambda>c. \<not> isNewline c) (take 64 s) @ filter (\<lambda>c. \<not> isNewline c) (breakLines (drop 64 s))"
      using False by (subst breakLines.simps) (simp add: isNewline_def)
    also have "\<dots> = filter (\<lambda>c. \<not> isNewline c) (take 64 s) @ filter (\<lambda>c. \<not> isNewline c) (drop 64 s)"
      using 1 False by simp
    also have "\<dots> = filter (\<lambda>c. \<not> isNewline c) (take 64 s @ drop 64 s)"
      by (simp only: filter_append)
    finally show ?thesis by simp
  qed
qed

lemma DecodeString_breakLines: "DecodeString (breakLines (EncodeToString src)) = Inr src"
  using DecodeString_EncodeToString [of src]
  by (simp add: DecodeString_def breakLines_filter)

section \<open>convertToPEM\<close>

lemma pemBegin_CERTIFICATE: "pemBegin ''CERTIFICATE'' = ''-----BEGIN CERTIFICATE-----'' @ [CHR 0x0A]"
  by (simp add: pemBegin_def)

lemma pemEnd_CERTIFICATE: "pemEnd ''CERTIFICATE'' = ''-----END CERTIFICATE-----'' @ [CHR 0x0A]"
  by (simp add: pemEnd_def)

text \<open>
  C10. \<^verbatim>\<open>convertToPEM\<close> returns a PEM text exactly when the X.509 parser accepts the
  bytes; the text is then the \<^verbatim>\<open>BEGIN CERTIFICATE\<close> line, a body and the
  \<^verbatim>\<open>END CERTIFICATE\<close> line, and the body decodes as base64 to the input bytes.
\<close>

theorem convertToPEM_iff_parses:
  "((\<exists>pem. convertToPEM l cert = Inr pem) \<longleftrightarrow> parseCertificate l cert)
   \<and> (\<forall>pem. convertToPEM l cert = Inr pem \<longrightarrow>
        (\<exists>body. pem = ''-----BEGIN CERTIFICATE-----'' @ [CHR 0x0A] @ body
                         @ ''-----END CERTIFICATE-----'' @ [CHR 0x0A]
               \<and> DecodeString body = Inr cert))"
proof -
  have "pem_Encode ''CERTIFICATE'' cert =
      ''-----BEGIN CERTIFICATE-----'' @ [CHR 0x0A] @ breakLines (EncodeToString cert)
        @ ''-----END CERTIFICATE-----'' @ [CHR 0x0A]"
    by (simp only: pem_Encode_def pemBegin_CERTIFICATE pemEnd_CERTIFICATE append_assoc)
  then show ?thesis
    using DecodeString_breakLines [of cert]
    by (auto simp: convertToPEM_def simp del: append.simps)
qed

lemma EncodeToString_example: "EncodeToString ''0ab'' = ''MGFi''"
  by (simp add: encode_def encodeStd_def)

lemma DecodeString_example: "DecodeString ''MGFi'' = Inr ''0ab''"
  using DecodeString_EncodeToString [of "''0ab''"] by (simp add: encode_def encodeStd_def)

lemma breakLines_example: "breakLines ''MGFi'' = ''MGFi'' @ [CHR 0x0A]"
  by (simp add: breakLines.simps)

theorem convertToPEM_iff_parses_witness:
  "parseCertificate exampleLib ''0ab''
   \<and> convertToPEM exampleLib ''0ab'' =
         Inr (''-----BEGIN CERTIFICATE-----'' @ [CHR 0x0A] @ ''MGFi'' @ [CHR 0x0A]
              @ ''-----END CERTIFICATE-----'' @ [CHR 0x0A])
   \<and> DecodeString (''MGFi'' @ [CHR 0x0A]) = Inr ''0ab''"
  using convertToPEM_iff_parses [of exampleLib "''0ab''"]
  by (simp add: convertToPEM_def exampleLib_def pem_Encode_def pemBegin_def pemEnd_def
      encode_def encodeStd_def breakLines.simps)

section \<open>The loop over the certificates of an entry\<close>

lemma certificateFails_iff: "certificateFails l c \<longleftrightarrow> pemBlockOf l c = None"
  by (simp add: certificateFails_def pemBlockOf_def split: option.splits sum.splits)

lemma certificatePEM_Some:
  "pemBlockOf l c = Some p \<Longrightarrow> certificatePEM l a i j c = Inr p"
  by (auto simp: pemBlockOf_def certificatePEM_def convertToPEM_def
      split: option.splits sum.splits if_splits)

lemma certificatePEM_None:
  "pemBlockOf l c = None \<Longrightarrow>
   certificatePEM l a i j c = Inl (InvalidCertificateData a i j)
   \<or> certificatePEM l a i j c = Inl (NoRawBytesFound a i j)
   \<or> certificatePEM l a i j c = Inl (ErrorDecodingBase64 a i j CorruptInput)
   \<or> certificatePEM l a i j c = Inl (ErrorConvertingToPEM a i j CertificateRejected)"
proof -
  assume n: "pemBlockOf l c = None"
  have only: "e = CorruptInput" for e :: b64error by (cases e) simp
  show ?thesis
    using n only [of "projl (DecodeString (the (asString (index_map (the (asMap c)) ''rawBytes''))))"]
    by (auto simp: pemBlockOf_def certificatePEM_def convertToPEM_def
        split: option.splits sum.splits if_splits)
qed

lemma certificatesLoop_fst:
  "fst (certificatesLoop l a i certs j (pemData, lg)) =
     pemData @ concat (List.map_filter (pemBlockOf l) certs)"
proof (induction certs arbitrary: j pemData lg)
  case Nil
  show ?case by (simp add: List.map_filter_simps)
next
  case (Cons c certs)
  show ?case
  proof (cases "pemBlockOf l c")
    case None
    from certificatePEM_None [OF None, of a i j] obtain msg where
      "certificatePEM l a i j c = Inl msg" by blast
    then show ?thesis using None Cons.IH by (simp add: List.map_filter_simps)
  next
    case (Some p)
    then show ?thesis
      using certificatePEM_Some [OF Some, of a i j] Cons.IH by (simp add: List.map_filter_simps)
  qed
qed

lemma entryField_updated:
  assumes "updateYAML_tree root a idx org cn u cc = Inr root'"
  shows "entryField root' a (nat idx) ''certChain'' = Some (String cc)"
    and "entryField root' a (nat idx) ''uri'' = Some (String u)"
    and "entryField root' a (nat idx) ''subject'' =
           Some (StrMap (fmupd ''commonName'' (String cn) (fmupd ''organization'' (String org) fmempty)))"
proof -
  from assms obtain spec sk where i0: "0 \<le> idx" and
    r: "root' = fmupd ''spec'' (StrMap (fmupd ''sigstoreKeys'' (StrMap
           (fmupd a (Slice (patchList sk a idx org cn u cc)) sk)) spec)) root"
    by (rule updateYAML_tree_InrE)
  have len: "nat idx < length (patchList sk a idx org cn u cc)"
    using i0 by (simp add: length_patchList)
  have e: "entryOf root' a (nat idx) =
      Some (StrMap (updateEntry (grow (getOrCreate sk a idx) idx ! nat idx) org cn u cc))"
    using len by (simp add: entryOf_def r authorityValue_updated patchList_nth_index [OF i0])
  show "entryField root' a (nat idx) ''certChain'' = Some (String cc)"
    and "entryField root' a (nat idx) ''uri'' = Some (String u)"
    and "entryField root' a (nat idx) ''subject'' =
           Some (StrMap (fmupd ''commonName'' (String cn) (fmupd ''organization'' (String org) fmempty)))"
    by (simp_all add: entryField_def e updateEntry_def Let_def)
qed


lemma EncodeToString_example2: "EncodeToString ''0c'' = ''MGM=''"
  by (simp add: encode_def encodeStd_def padChar_def)

lemma DecodeString_example2: "DecodeString ''MGM='' = Inr ''0c''"
  using DecodeString_EncodeToString [of "''0c''"] by (simp only: EncodeToString_example2)

lemma DecodeString_example3: "DecodeString ''!!'' = Inl CorruptInput"
  by (simp add: DecodeString_def isNewline_def)

lemma pemBlockOf_certA:
  "pemBlockOf exampleLib certA =
     Some (''-----BEGIN CERTIFICATE-----'' @ [CHR 0x0A] @ ''MGFi'' @ [CHR 0x0A]
           @ ''-----END CERTIFICATE-----'' @ [CHR 0x0A])"
  by (simp add: pemBlockOf_def certA_def index_map_def DecodeString_example exampleLib_def
      pem_Encode_def pemBegin_def pemEnd_def breakLines.simps encode_def encodeStd_def padChar_def)

lemma pemBlockOf_certB:
  "pemBlockOf exampleLib certB =
     Some (''-----BEGIN CERTIFICATE-----'' @ [CHR 0x0A] @ ''MGM='' @ [CHR 0x0A]
           @ ''-----END CERTIFICATE-----'' @ [CHR 0x0A])"
  by (simp add: pemBlockOf_def certB_def index_map_def DecodeString_example2 exampleLib_def
      pem_Encode_def pemBegin_def pemEnd_def breakLines.simps encode_def encodeStd_def padChar_def)

lemma pemBlockOf_certBad: "pemBlockOf exampleLib certBad = None"
  by (simp add: pemBlockOf_def certBad_def index_map_def DecodeString_example3)

lemma templateNoKeys_navigation:
  "asMap (index_map templateNoKeys ''spec'') = Some (fmupd ''sigstoreKeys'' (StrMap fmempty) fmempty)"
  "asMap (index_map (fmupd ''sigstoreKeys'' (StrMap fmempty) fmempty) ''sigstoreKeys'') = Some fmempty"
  by (simp_all add: templateNoKeys_def index_map_def)

lemma certificatesLoop_skips:
  assumes "certificateFails l c"
  shows "(\<exists>msg. certificatesLoop l a i (c # cs) j (pemData, lg) =
                  certificatesLoop l a i cs (Suc j) (pemData, lg @ [msg])
              \<and> (msg = InvalidCertificateData a i j \<or> msg = NoRawBytesFound a i j
                  \<or> msg = ErrorDecodingBase64 a i j CorruptInput
                  \<or> msg = ErrorConvertingToPEM a i j CertificateRejected))
       \<and> fst (certificatesLoop l a i (before @ c # cs) j (pemData, lg)) =
           fst (certificatesLoop l a i (before @ cs) j (pemData, lg))
       \<and> fst (certificatesLoop l a i (before @ c # cs) j (pemData, lg)) =
           pemData @ concat (List.map_filter (pemBlockOf l) before)
                   @ concat (List.map_filter (pemBlockOf l) cs)"
proof -
  have n: "pemBlockOf l c = None" using assms by (simp add: certificateFails_iff)
  have step: "\<exists>msg. certificatesLoop l a i (c # cs) j (pemData, lg) =
                  certificatesLoop l a i cs (Suc j) (pemData, lg @ [msg])
              \<and> (msg = InvalidCertificateData a i j \<or> msg = NoRawBytesFound a i j
                  \<or> msg = ErrorDecodingBase64 a i j CorruptInput
                  \<or> msg = ErrorConvertingToPEM a i j CertificateRejected)"
    using certificatePEM_None [OF n, of a i j] by auto
  have mf: "List.map_filter (pemBlockOf l) (before @ c # cs) =
      List.map_filter (pemBlockOf l) before @ List.map_filter (pemBlockOf l) cs"
    using n by (simp add: List.map_filter_def)
  have mf2: "List.map_filter (pemBlockOf l) (before @ cs) =
      List.map_filter (pemBlockOf l) before @ List.map_filter (pemBlockOf l) cs"
    by (simp add: List.map_filter_def)
  show ?thesis
    using step by (simp add: certificatesLoop_fst mf mf2)
qed

section \<open>Properties of \<^verbatim>\<open>updateYAML\<close> on the file\<close>

lemma ReadFile_Inr: "ReadFile f name = Inr data \<longleftrightarrow> f name = File data"
  by (simp add: ReadFile_def split: node.splits)

lemma updateYAML_eq:
  assumes "f filename = File data" and "yaml_Unmarshal l data = Some root"
    and "updateYAML_tree root authority index org cn u cc = Inr root'"
  shows "updateYAML l f filename authority index org cn u cc =
     (case yaml_Marshal l root' of
        None \<Rightarrow> Inl MarshalFailed
      | Some updatedData \<Rightarrow> Inr (f(filename := File updatedData)))"
  using assms
  by (simp add: updateYAML_def ReadFile_def WriteFile_def split: option.splits)

lemma updateYAML_InrE:
  assumes "updateYAML l f filename authority index org cn u cc = Inr f'"
  obtains data root root' updatedData where "f filename = File data"
    and "yaml_Unmarshal l data = Some root"
    and "updateYAML_tree root authority index org cn u cc = Inr root'"
    and "yaml_Marshal l root' = Some updatedData"
    and "f' = f(filename := File updatedData)"
proof -
  from assms obtain data where d: "f filename = File data"
    by (auto simp: updateYAML_def ReadFile_def split: node.splits)
  from assms d obtain root where r: "yaml_Unmarshal l data = Some root"
    by (auto simp: updateYAML_def ReadFile_def split: option.splits)
  from assms d r obtain root' where t: "updateYAML_tree root authority index org cn u cc = Inr root'"
    by (auto simp: updateYAML_def ReadFile_def split: sum.splits)
  from assms updateYAML_eq [where f = f and filename = filename and l = l, OF d r t] obtain updatedData where
    "yaml_Marshal l root' = Some updatedData" "f' = f(filename := File updatedData)"
    by (auto split: option.splits)
  with d r t show ?thesis using that by blast
qed

lemma updateYAML_tree_not_Panic:
  "0 \<le> index \<Longrightarrow> index < maxInt \<Longrightarrow>
   updateYAML_tree root authority index org cn u cc \<noteq> Inl Panic"
  by (simp add: updateYAML_tree_def Let_def split: option.splits)

lemma updateYAML_not_Panic:
  "0 \<le> index \<Longrightarrow> index < maxInt \<Longrightarrow>
   updateYAML l f filename authority index org cn u cc \<noteq> Inl Panic"
  using updateYAML_tree_not_Panic [of index]
  by (auto simp: updateYAML_def split: sum.splits option.splits)

text \<open>
  C2. The file holds a document whose sequence of the authority kind has length
  \<open>m < k + 1\<close>. Then \<^verbatim>\<open>updateYAML\<close> at index \<open>k\<close> patches the document into one
  whose sequence has length exactly \<open>k + 1\<close>, with the original elements at the
  positions below \<open>m\<close> and empty mappings at the positions from \<open>m\<close> to \<open>k - 1\<close>,
  and writes the text of that document to the file (or returns the error of
  \<^verbatim>\<open>yaml.Marshal\<close>, the file untouched).
\<close>

theorem updateYAML_grows_existing:
  assumes "ReadFile f filename = Inr data"
    and "yaml_Unmarshal l data = Some root"
    and "authorityValue root authority = Some (Slice s)"
    and "int (length s) < k + 1" and "k < maxInt"
  shows "\<exists>root' s'. authorityValue root' authority = Some (Slice s')
           \<and> int (length s') = k + 1
           \<and> (\<forall>j < length s. s' ! j = s ! j)
           \<and> (\<forall>j. length s \<le> j \<and> int j < k \<longrightarrow> s' ! j = StrMap fmempty)
           \<and> updateYAML l f filename authority k org cn u certChain =
               (case yaml_Marshal l root' of
                  None \<Rightarrow> Inl MarshalFailed
                | Some updatedData \<Rightarrow> Inr (f(filename := File updatedData)))"
proof -
  from updateYAML_tree_grows [OF assms(3-5), of org cn u certChain]
  obtain root' s' where t: "updateYAML_tree root authority k org cn u certChain = Inr root'"
    and p: "authorityValue root' authority = Some (Slice s')" "int (length s') = k + 1"
      "\<forall>j < length s. s' ! j = s ! j"
      "\<forall>j. length s \<le> j \<and> int j < k \<longrightarrow> s' ! j = StrMap fmempty"
    by blast
  from assms(1) have d: "f filename = File data" by (simp add: ReadFile_Inr)
  from updateYAML_eq [where f = f and filename = filename, OF d assms(2) t] p
  show ?thesis by blast
qed

theorem updateYAML_grows_existing_witness:
  "\<exists>root' s'. authorityValue root' ''certificateAuthorities'' = Some (Slice s')
       \<and> int (length s') = 3
       \<and> s' ! 0 = String ''first''
       \<and> s' ! 1 = StrMap fmempty
       \<and> updateYAML exampleLib exampleFiles ''one.yaml'' ''certificateAuthorities'' 2 ''o'' ''c'' ''u'' ''Y2M='' =
           Inr (exampleFiles(''one.yaml'' := File ''patched''))"
proof -
  have h1: "ReadFile exampleFiles ''one.yaml'' = Inr ''one''"
    by (simp add: ReadFile_def exampleFiles_def)
  have h2: "yaml_Unmarshal exampleLib ''one'' = Some templateOne"
    by (simp add: exampleLib_def)
  have h3: "authorityValue templateOne ''certificateAuthorities'' = Some (Slice [String ''first''])"
    by (simp add: authorityValue_def sigstoreKeysOf_def index_map_def templateOne_def)
  have h4: "int (length [String ''first'']) < 2 + 1" by simp
  have h5: "(2::int) < maxInt" by (simp add: maxInt_def)
  have m: "yaml_Marshal exampleLib r = Some ''patched''" for r
    by (simp add: exampleLib_def)
  from updateYAML_grows_existing [OF h1 h2 h3 h4 h5, of "''o''" "''c''" "''u''" "''Y2M=''"]
  show ?thesis by (fastforce simp: m)
qed

section \<open>Idempotence\<close>

lemma updateEntry_idem:
  "updateEntry (StrMap (updateEntry v org cn u cc)) org cn u cc = updateEntry v org cn u cc"
  by (rule fmap_ext) (simp add: updateEntry_def Let_def)

lemma grow_id: "index < int (length l) \<Longrightarrow> grow l index = l"
  by (simp add: grow_eq)

lemma patchList_idem:
  assumes "0 \<le> index"
    and "index_map sk' authority = Slice (patchList sk authority index org cn u cc)"
  shows "patchList sk' authority index org cn u cc = patchList sk authority index org cn u cc"
proof -
  define L where "L = patchList sk authority index org cn u cc"
  have len: "index < int (length L)"
    using assms(1) by (simp add: L_def length_patchList)
  have g: "grow (getOrCreate sk' authority index) index = L"
    using len by (simp add: getOrCreate_def assms(2) L_def [symmetric] grow_id)
  have n: "L ! nat index =
      StrMap (updateEntry (grow (getOrCreate sk authority index) index ! nat index) org cn u cc)"
    using assms(1) by (simp add: L_def patchList_nth_index)
  have "patchList sk' authority index org cn u cc =
      L[nat index := StrMap (updateEntry (L ! nat index) org cn u cc)]"
    by (simp add: patchList_def Let_def g)
  also have "\<dots> = L[nat index := L ! nat index]"
    by (simp add: n updateEntry_idem)
  also have "\<dots> = L" by simp
  finally show ?thesis by (simp add: L_def)
qed

lemma updateYAML_tree_idem:
  assumes "updateYAML_tree root authority index org cn u cc = Inr root'"
  shows "updateYAML_tree root' authority index org cn u cc = Inr root'"
proof -
  from assms obtain spec sk where
    i0: "0 \<le> index" and im: "index < maxInt" and
    r: "root' = fmupd ''spec'' (StrMap (fmupd ''sigstoreKeys'' (StrMap
           (fmupd authority (Slice (patchList sk authority index org cn u cc)) sk)) spec)) root"
    by (rule updateYAML_tree_InrE)
  define L where "L = patchList sk authority index org cn u cc"
  define sk' where "sk' = fmupd authority (Slice L) sk"
  define spec' where "spec' = fmupd ''sigstoreKeys'' (StrMap sk') spec"
  have r': "root' = fmupd ''spec'' (StrMap spec') root"
    by (simp add: r spec'_def sk'_def L_def)
  have n1: "asMap (index_map root' ''spec'') = Some spec'"
    by (simp add: r' index_map_def)
  have n2: "asMap (index_map spec' ''sigstoreKeys'') = Some sk'"
    by (simp add: spec'_def index_map_def)
  have n3: "index_map sk' authority = Slice (patchList sk authority index org cn u cc)"
    by (simp add: sk'_def index_map_def L_def)
  have p: "patchList sk' authority index org cn u cc = L"
    using patchList_idem [OF i0 n3] by (simp add: L_def)
  have "updateYAML_tree root' authority index org cn u cc =
      Inr (fmupd ''spec'' (StrMap (fmupd ''sigstoreKeys'' (StrMap
        (fmupd authority (Slice L) sk')) spec')) root')"
    using updateYAML_tree_Inr [OF n1 n2 i0 im] by (simp add: p)
  also have "fmupd authority (Slice L) sk' = sk'" by (simp add: sk'_def)
  also have "fmupd ''sigstoreKeys'' (StrMap sk') spec' = spec'" by (simp add: spec'_def)
  also have "fmupd ''spec'' (StrMap spec') root' = root'" by (simp add: r')
  finally show ?thesis .
qed

text \<open>
  C7. Let the YAML library read every text it writes back as the tree it wrote. After a
  successful \<^verbatim>\<open>updateYAML\<close>, a second call with the same arguments on the files
  the first one has left succeeds and leaves the same files: the tree it reads from the
  file is patched into itself, and written as the same text. Trees are compared as
  values: mappings are finite maps, so the order of keys plays no part.
\<close>

theorem updateYAML_idempotent:
  assumes "\<forall>root data. yaml_Marshal l root = Some data \<longrightarrow> yaml_Unmarshal l data = Some root"
    and "updateYAML l f filename authority index org cn u cc = Inr f'"
  shows "updateYAML l f' filename authority index org cn u cc = Inr f'
       \<and> (\<exists>data' root'. ReadFile f' filename = Inr data' \<and> yaml_Unmarshal l data' = Some root'
             \<and> updateYAML_tree root' authority index org cn u cc = Inr root')"
proof -
  from assms(2) obtain data root root' updatedData where
    t: "updateYAML_tree root authority index org cn u cc = Inr root'" and
    m: "yaml_Marshal l root' = Some updatedData" and
    f': "f' = f(filename := File updatedData)"
    by (rule updateYAML_InrE)
  have d: "f' filename = File updatedData" by (simp add: f')
  have r: "yaml_Unmarshal l updatedData = Some root'" using assms(1) m by blast
  have i: "updateYAML_tree root' authority index org cn u cc = Inr root'"
    using t by (rule updateYAML_tree_idem)
  have "updateYAML l f' filename authority index org cn u cc = Inr (f'(filename := File updatedData))"
    using updateYAML_eq [where f = f' and filename = filename, OF d r i] by (simp add: m)
  moreover have "f'(filename := File updatedData) = f'" by (simp add: f')
  ultimately show ?thesis using d r i by (simp add: ReadFile_Inr)
qed

lemma patchedDocument_eq:
  "updateYAML_tree templateNoKeys ''certificateAuthorities'' 0 ''o'' ''c'' ''u'' ''Y2M='' = Inr patchedDocument"
proof -
  have m: "(0::int) < maxInt" by (simp add: maxInt_def)
  show ?thesis
    unfolding patchedDocument_def
    by (simp add: updateYAML_tree_Inr [OF templateNoKeys_navigation order_refl m])
qed

theorem updateYAML_idempotent_witness:
  "updateYAML roundTripLib exampleFiles ''template.yaml'' ''certificateAuthorities'' 0 ''o'' ''c'' ''u'' ''Y2M='' =
     Inr (exampleFiles(''template.yaml'' := File ''patched''))
   \<and> updateYAML roundTripLib (exampleFiles(''template.yaml'' := File ''patched''))
        ''template.yaml'' ''certificateAuthorities'' 0 ''o'' ''c'' ''u'' ''Y2M='' =
     Inr (exampleFiles(''template.yaml'' := File ''patched''))"
proof -
  have rt: "\<forall>root data. yaml_Marshal roundTripLib root = Some data \<longrightarrow>
      yaml_Unmarshal roundTripLib data = Some root"
    by (simp add: roundTripLib_def)
  have d: "exampleFiles ''template.yaml'' = File ''template''"
    by (simp add: exampleFiles_def)
  have r: "yaml_Unmarshal roundTripLib ''template'' = Some templateNoKeys"
    by (simp add: roundTripLib_def)
  have first: "updateYAML roundTripLib exampleFiles ''template.yaml'' ''certificateAuthorities'' 0
      ''o'' ''c'' ''u'' ''Y2M='' = Inr (exampleFiles(''template.yaml'' := File ''patched''))"
    using updateYAML_eq [where f = exampleFiles and filename = "''template.yaml''",
        OF d r patchedDocument_eq]
    by (simp add: roundTripLib_def)
  from updateYAML_idempotent [OF rt first] first show ?thesis by simp
qed

section \<open>The frame of \<^verbatim>\<open>updateYAML\<close>\<close>

lemma patchList_frame:
  assumes "0 \<le> index" and "index_map sk authority = Slice s"
  shows "\<forall>j < length s. j \<noteq> nat index \<longrightarrow>
           patchList sk authority index org cn u cc ! j = s ! j"
    and "\<forall>e. nat index < length s \<and> s ! nat index = StrMap e \<longrightarrow>
           (\<exists>e'. patchList sk authority index org cn u cc ! nat index = StrMap e'
              \<and> (\<forall>k. k \<noteq> ''subject'' \<and> k \<noteq> ''uri'' \<and> k \<noteq> ''certChain'' \<longrightarrow>
                    fmlookup e' k = fmlookup e k))"
proof -
  have g: "getOrCreate sk authority index = s" by (simp add: getOrCreate_def assms(2))
  show "\<forall>j < length s. j \<noteq> nat index \<longrightarrow>
           patchList sk authority index org cn u cc ! j = s ! j"
    by (simp add: patchList_nth_other g grow_eq nth_append)
  show "\<forall>e. nat index < length s \<and> s ! nat index = StrMap e \<longrightarrow>
           (\<exists>e'. patchList sk authority index org cn u cc ! nat index = StrMap e'
              \<and> (\<forall>k. k \<noteq> ''subject'' \<and> k \<noteq> ''uri'' \<and> k \<noteq> ''certChain'' \<longrightarrow>
                    fmlookup e' k = fmlookup e k))"
    using assms(1)
    by (simp add: patchList_nth_index g grow_eq nth_append updateEntry_def Let_def)
qed

text \<open>
  C8, as amended. A successful \<^verbatim>\<open>updateYAML\<close> writes the text of a tree that
  differs from the tree it has read only at \<^verbatim>\<open>spec.sigstoreKeys.<authority>\<close>, and
  leaves every other file alone: the keys of the root other than \<^verbatim>\<open>spec\<close>, the
  keys of \<^verbatim>\<open>spec\<close> other than \<^verbatim>\<open>sigstoreKeys\<close>, and the keys of
  \<^verbatim>\<open>sigstoreKeys\<close> other than the authority kind keep their values; where the kind
  held a sequence, its elements at the other positions are kept, and where the element
  at \<open>index\<close> was a mapping with string keys, its fields other than \<^verbatim>\<open>subject\<close>,
  \<^verbatim>\<open>uri\<close> and \<^verbatim>\<open>certChain\<close> are kept.
\<close>

theorem updateYAML_frame:
  assumes "updateYAML l f filename authority index org cn u cc = Inr f'"
  shows "\<exists>data root root' updatedData spec spec' sk sk' s'.
      ReadFile f filename = Inr data \<and> yaml_Unmarshal l data = Some root
    \<and> yaml_Marshal l root' = Some updatedData \<and> f' = f(filename := File updatedData)
    \<and> (\<forall>k. k \<noteq> ''spec'' \<longrightarrow> fmlookup root' k = fmlookup root k)
    \<and> asMap (index_map root ''spec'') = Some spec
    \<and> fmlookup root' ''spec'' = Some (StrMap spec')
    \<and> (\<forall>k. k \<noteq> ''sigstoreKeys'' \<longrightarrow> fmlookup spec' k = fmlookup spec k)
    \<and> asMap (index_map spec ''sigstoreKeys'') = Some sk
    \<and> fmlookup spec' ''sigstoreKeys'' = Some (StrMap sk')
    \<and> (\<forall>k. k \<noteq> authority \<longrightarrow> fmlookup sk' k = fmlookup sk k)
    \<and> fmlookup sk' authority = Some (Slice s')
    \<and> (\<forall>s. index_map sk authority = Slice s \<longrightarrow>
          (\<forall>j < length s. j \<noteq> nat index \<longrightarrow> s' ! j = s ! j)
        \<and> (\<forall>e. nat index < length s \<and> s ! nat index = StrMap e \<longrightarrow>
             (\<exists>e'. s' ! nat index = StrMap e'
                \<and> (\<forall>k. k \<noteq> ''subject'' \<and> k \<noteq> ''uri'' \<and> k \<noteq> ''certChain'' \<longrightarrow>
                      fmlookup e' k = fmlookup e k))))"
proof -
  from assms obtain data root root' updatedData where
    d: "f filename = File data" and r: "yaml_Unmarshal l data = Some root" and
    t: "updateYAML_tree root authority index org cn u cc = Inr root'" and
    m: "yaml_Marshal l root' = Some updatedData" and
    f': "f' = f(filename := File updatedData)"
    by (rule updateYAML_InrE)
  from t obtain spec sk where
    n1: "asMap (index_map root ''spec'') = Some spec" and
    n2: "asMap (index_map spec ''sigstoreKeys'') = Some sk" and
    i0: "0 \<le> index" and
    r': "root' = fmupd ''spec'' (StrMap (fmupd ''sigstoreKeys'' (StrMap
           (fmupd authority (Slice (patchList sk authority index org cn u cc)) sk)) spec)) root"
    by (rule updateYAML_tree_InrE)
  define s' where "s' = patchList sk authority index org cn u cc"
  define sk' where "sk' = fmupd authority (Slice s') sk"
  define spec' where "spec' = fmupd ''sigstoreKeys'' (StrMap sk') spec"
  have a1: "\<forall>k. k \<noteq> ''spec'' \<longrightarrow> fmlookup root' k = fmlookup root k" by (simp add: r')
  have a2: "fmlookup root' ''spec'' = Some (StrMap spec')" by (simp add: r' spec'_def sk'_def s'_def)
  have a3: "\<forall>k. k \<noteq> ''sigstoreKeys'' \<longrightarrow> fmlookup spec' k = fmlookup spec k" by (simp add: spec'_def)
  have a4: "fmlookup spec' ''sigstoreKeys'' = Some (StrMap sk')" by (simp add: spec'_def)
  have a5: "\<forall>k. k \<noteq> authority \<longrightarrow> fmlookup sk' k = fmlookup sk k" by (simp add: sk'_def)
  have a6: "fmlookup sk' authority = Some (Slice s')" by (simp add: sk'_def)
  have a7: "\<forall>s. index_map sk authority = Slice s \<longrightarrow>
          (\<forall>j < length s. j \<noteq> nat index \<longrightarrow> s' ! j = s ! j)
        \<and> (\<forall>e. nat index < length s \<and> s ! nat index = StrMap e \<longrightarrow>
             (\<exists>e'. s' ! nat index = StrMap e'
                \<and> (\<forall>k. k \<noteq> ''subject'' \<and> k \<noteq> ''uri'' \<and> k \<noteq> ''certChain'' \<longrightarrow>
                      fmlookup e' k = fmlookup e k)))"
    unfolding s'_def using patchList_frame [OF i0] by blast
  have d': "ReadFile f filename = Inr data" using d by (simp add: ReadFile_Inr)
  show ?thesis
    using d' r m f' a1 n1 a2 a3 n2 a4 a5 a6 a7 by blast
qed


text \<open>
  C8, the claim: any fields of the element at the index other than \<^verbatim>\<open>subject\<close>,
  \<^verbatim>\<open>uri\<close> and \<^verbatim>\<open>certChain\<close> are preserved. The program keeps the element only
  when the assertion \<^verbatim>\<open>authorityList[index].(map[string]interface{})\<close> holds. A
  mapping with a key that is not a string has another type: the call succeeds, and the
  element, which had the field \<^verbatim>\<open>note\<close>, is replaced by a mapping of the three
  fields.
\<close>

theorem updateYAML_replaces_general_mapping:
  "updateYAML exampleLib exampleFiles ''general.yaml'' ''certificateAuthorities'' 0 ''o'' ''c'' ''u'' ''Y2M='' =
     Inr (exampleFiles(''general.yaml'' := File ''patched''))
   \<and> ReadFile exampleFiles ''general.yaml'' = Inr ''general''
   \<and> yaml_Unmarshal exampleLib ''general'' = Some templateGeneral
   \<and> entryOf templateGeneral ''certificateAuthorities'' 0 =
       Some (AnyMap [(String ''note'', String ''keep''), (Integer 1, String ''legacy'')])
   \<and> (case updateYAML_tree templateGeneral ''certificateAuthorities'' 0 ''o'' ''c'' ''u'' ''Y2M='' of
         Inl e \<Rightarrow> False
       | Inr root' \<Rightarrow>
           entryOf root' ''certificateAuthorities'' 0 =
             Some (StrMap (fmupd ''certChain'' (String ''Y2M='')
               (fmupd ''uri'' (String ''u'')
                 (fmupd ''subject''
                    (StrMap (fmupd ''commonName'' (String ''c'')
                       (fmupd ''organization'' (String ''o'') fmempty)))
                    fmempty))))
           \<and> entryField root' ''certificateAuthorities'' 0 ''note'' = None)"
proof -
  have t: "updateYAML_tree templateGeneral ''certificateAuthorities'' 0 ''o'' ''c'' ''u'' ''Y2M='' =
      Inr (fmupd ''spec'' (StrMap (fmupd ''sigstoreKeys'' (StrMap
        (fmupd ''certificateAuthorities'' (Slice [StrMap (fmupd ''certChain'' (String ''Y2M='')
               (fmupd ''uri'' (String ''u'')
                 (fmupd ''subject''
                    (StrMap (fmupd ''commonName'' (String ''c'')
                       (fmupd ''organization'' (String ''o'') fmempty)))
                    fmempty)))])
          (fmupd ''certificateAuthorities''
            (Slice [AnyMap [(String ''note'', String ''keep''), (Integer 1, String ''legacy'')]]) fmempty)))
        (fmupd ''sigstoreKeys''
         (StrMap (fmupd ''certificateAuthorities''
            (Slice [AnyMap [(String ''note'', String ''keep''), (Integer 1, String ''legacy'')]]) fmempty))
         fmempty))) templateGeneral)"
    by (simp add: updateYAML_tree_def patchList_def getOrCreate_def updateEntry_def
        templateGeneral_def index_map_def maxInt_def grow_eq Let_def)
  have d: "exampleFiles ''general.yaml'' = File ''general''" by (simp add: exampleFiles_def)
  have r: "yaml_Unmarshal exampleLib ''general'' = Some templateGeneral" by (simp add: exampleLib_def)
  have first: "updateYAML exampleLib exampleFiles ''general.yaml'' ''certificateAuthorities'' 0
      ''o'' ''c'' ''u'' ''Y2M='' = Inr (exampleFiles(''general.yaml'' := File ''patched''))"
    using updateYAML_eq [where f = exampleFiles and filename = "''general.yaml''" and l = exampleLib,
        OF d r t]
    by (simp add: exampleLib_def)
  have e: "entryOf templateGeneral ''certificateAuthorities'' 0 =
       Some (AnyMap [(String ''note'', String ''keep''), (Integer 1, String ''legacy'')])"
    by (simp add: entryOf_def authorityValue_def sigstoreKeysOf_def index_map_def templateGeneral_def)
  show ?thesis
    using first r e
    by (simp add: t ReadFile_def d entryField_def entryOf_def authorityValue_def sigstoreKeysOf_def index_map_def)
qed

theorem updateYAML_frame_witness:
  "updateYAML exampleLib exampleFiles ''full.yaml'' ''certificateAuthorities'' 0 ''o'' ''c'' ''u'' ''Y2M='' =
     Inr (exampleFiles(''full.yaml'' := File ''patched''))
   \<and> (\<exists>root root' spec spec' sk sk' s' e'.
        yaml_Unmarshal exampleLib ''full'' = Some root
      \<and> yaml_Marshal exampleLib root' = Some ''patched''
      \<and> fmlookup root' ''kind'' = fmlookup root ''kind''
      \<and> asMap (index_map root ''spec'') = Some spec
      \<and> fmlookup root' ''spec'' = Some (StrMap spec')
      \<and> fmlookup spec' ''repository'' = fmlookup spec ''repository''
      \<and> asMap (index_map spec ''sigstoreKeys'') = Some sk
      \<and> fmlookup spec' ''sigstoreKeys'' = Some (StrMap sk')
      \<and> fmlookup sk' ''tLogs'' = fmlookup sk ''tLogs''
      \<and> fmlookup sk' ''certificateAuthorities'' = Some (Slice s')
      \<and> s' ! 1 = String ''second''
      \<and> s' ! 0 = StrMap e'
      \<and> fmlookup e' ''note'' = Some (String ''keep''))"
proof -
  have d: "exampleFiles ''full.yaml'' = File ''full''" by (simp add: exampleFiles_def)
  have r: "yaml_Unmarshal exampleLib ''full'' = Some templateFull" by (simp add: exampleLib_def)
  have m: "(0::int) < maxInt" by (simp add: maxInt_def)
  have n1: "asMap (index_map templateFull ''spec'') =
      Some (fmupd ''sigstoreKeys'' (StrMap
          (fmupd ''certificateAuthorities''
             (Slice [StrMap (fmupd ''note'' (String ''keep'') (fmupd ''uri'' (String ''old'') fmempty)),
                     String ''second''])
          (fmupd ''tLogs'' (Slice []) fmempty)))
       (fmupd ''repository'' (String ''none'') fmempty))"
    by (simp add: templateFull_def index_map_def)
  have n2: "asMap (index_map (fmupd ''sigstoreKeys'' (StrMap
          (fmupd ''certificateAuthorities''
             (Slice [StrMap (fmupd ''note'' (String ''keep'') (fmupd ''uri'' (String ''old'') fmempty)),
                     String ''second''])
          (fmupd ''tLogs'' (Slice []) fmempty)))
       (fmupd ''repository'' (String ''none'') fmempty)) ''sigstoreKeys'') =
      Some (fmupd ''certificateAuthorities''
             (Slice [StrMap (fmupd ''note'' (String ''keep'') (fmupd ''uri'' (String ''old'') fmempty)),
                     String ''second''])
          (fmupd ''tLogs'' (Slice []) fmempty))"
    by (simp add: index_map_def)
  have first: "updateYAML exampleLib exampleFiles ''full.yaml'' ''certificateAuthorities'' 0
      ''o'' ''c'' ''u'' ''Y2M='' = Inr (exampleFiles(''full.yaml'' := File ''patched''))"
    using updateYAML_eq [where f = exampleFiles and filename = "''full.yaml''" and l = exampleLib,
        OF d r updateYAML_tree_Inr [OF n1 n2 order_refl m]]
    by (simp add: exampleLib_def)
  from updateYAML_frame [OF first] obtain data root root' updatedData spec spec' sk sk' s' where
    c: "ReadFile exampleFiles ''full.yaml'' = Inr data" "yaml_Unmarshal exampleLib data = Some root"
      "yaml_Marshal exampleLib root' = Some updatedData"
      "\<forall>k. k \<noteq> ''spec'' \<longrightarrow> fmlookup root' k = fmlookup root k"
      "asMap (index_map root ''spec'') = Some spec"
      "fmlookup root' ''spec'' = Some (StrMap spec')"
      "\<forall>k. k \<noteq> ''sigstoreKeys'' \<longrightarrow> fmlookup spec' k = fmlookup spec k"
      "asMap (index_map spec ''sigstoreKeys'') = Some sk"
      "fmlookup spec' ''sigstoreKeys'' = Some (StrMap sk')"
      "\<forall>k. k \<noteq> ''certificateAuthorities'' \<longrightarrow> fmlookup sk' k = fmlookup sk k"
      "fmlookup sk' ''certificateAuthorities'' = Some (Slice s')"
      "\<forall>s. index_map sk ''certificateAuthorities'' = Slice s \<longrightarrow>
          (\<forall>j < length s. j \<noteq> nat 0 \<longrightarrow> s' ! j = s ! j)
        \<and> (\<forall>e. nat 0 < length s \<and> s ! nat 0 = StrMap e \<longrightarrow>
             (\<exists>e'. s' ! nat 0 = StrMap e'
                \<and> (\<forall>k. k \<noteq> ''subject'' \<and> k \<noteq> ''uri'' \<and> k \<noteq> ''certChain'' \<longrightarrow>
                      fmlookup e' k = fmlookup e k)))"
    by (elim exE conjE) (rule that)
  from c(1) have "data = ''full''" by (simp add: ReadFile_def d)
  with c(2) have root: "root = templateFull" by (simp add: r)
  from c(5) have spec: "spec = fmupd ''sigstoreKeys'' (StrMap
          (fmupd ''certificateAuthorities''
             (Slice [StrMap (fmupd ''note'' (String ''keep'') (fmupd ''uri'' (String ''old'') fmempty)),
                     String ''second''])
          (fmupd ''tLogs'' (Slice []) fmempty)))
       (fmupd ''repository'' (String ''none'') fmempty)"
    by (simp add: root n1)
  from c(8) have sk: "sk = fmupd ''certificateAuthorities''
             (Slice [StrMap (fmupd ''note'' (String ''keep'') (fmupd ''uri'' (String ''old'') fmempty)),
                     String ''second''])
          (fmupd ''tLogs'' (Slice []) fmempty)"
    by (simp add: spec index_map_def)
  have s: "index_map sk ''certificateAuthorities'' =
      Slice [StrMap (fmupd ''note'' (String ''keep'') (fmupd ''uri'' (String ''old'') fmempty)),
             String ''second'']"
    by (simp add: sk index_map_def)
  from c(12) s have fr: "(\<forall>j < length [StrMap (fmupd ''note'' (String ''keep'') (fmupd ''uri'' (String ''old'') fmempty)),
             String ''second'']. j \<noteq> nat 0 \<longrightarrow> s' ! j = [StrMap (fmupd ''note'' (String ''keep'') (fmupd ''uri'' (String ''old'') fmempty)),
             String ''second''] ! j)"
    and fe: "\<forall>e. nat 0 < length [StrMap (fmupd ''note'' (String ''keep'') (fmupd ''uri'' (String ''old'') fmempty)),
             String ''second''] \<and> [StrMap (fmupd ''note'' (String ''keep'') (fmupd ''uri'' (String ''old'') fmempty)),
             String ''second''] ! nat 0 = StrMap e \<longrightarrow>
             (\<exists>e'. s' ! nat 0 = StrMap e'
                \<and> (\<forall>k. k \<noteq> ''subject'' \<and> k \<noteq> ''uri'' \<and> k \<noteq> ''certChain'' \<longrightarrow>
                      fmlookup e' k = fmlookup e k))"
    by blast+
  from fr [rule_format, of 1] have one: "s' ! 1 = String ''second''" by simp
  from fe [rule_format, of "fmupd ''note'' (String ''keep'') (fmupd ''uri'' (String ''old'') fmempty)"]
  obtain e' where e0: "s' ! 0 = StrMap e'"
    and ek: "\<forall>k. k \<noteq> ''subject'' \<and> k \<noteq> ''uri'' \<and> k \<noteq> ''certChain'' \<longrightarrow>
       fmlookup e' k = fmlookup (fmupd ''note'' (String ''keep'') (fmupd ''uri'' (String ''old'') fmempty)) k"
    by auto
  from ek [rule_format, of "''note''"] have en: "fmlookup e' ''note'' = Some (String ''keep'')" by simp
  note e' = e0 en
  have upd: "updatedData = ''patched''" using c(3) by (simp add: exampleLib_def)
  have k1: "fmlookup root' ''kind'' = fmlookup root ''kind''" using c(4) by simp
  have k2: "fmlookup spec' ''repository'' = fmlookup spec ''repository''" using c(7) by simp
  have k3: "fmlookup sk' ''tLogs'' = fmlookup sk ''tLogs''" using c(10) by simp
  have r2: "yaml_Unmarshal exampleLib ''full'' = Some root" using c(2) \<open>data = ''full''\<close> by simp
  have m2: "yaml_Marshal exampleLib root' = Some ''patched''" using c(3) upd by simp
  have "\<exists>root root' spec spec' sk sk' s' e'.
        yaml_Unmarshal exampleLib ''full'' = Some root
      \<and> yaml_Marshal exampleLib root' = Some ''patched''
      \<and> fmlookup root' ''kind'' = fmlookup root ''kind''
      \<and> asMap (index_map root ''spec'') = Some spec
      \<and> fmlookup root' ''spec'' = Some (StrMap spec')
      \<and> fmlookup spec' ''repository'' = fmlookup spec ''repository''
      \<and> asMap (index_map spec ''sigstoreKeys'') = Some sk
      \<and> fmlookup spec' ''sigstoreKeys'' = Some (StrMap sk')
      \<and> fmlookup sk' ''tLogs'' = fmlookup sk ''tLogs''
      \<and> fmlookup sk' ''certificateAuthorities'' = Some (Slice s')
      \<and> s' ! 1 = String ''second''
      \<and> s' ! 0 = StrMap e'
      \<and> fmlookup e' ''note'' = Some (String ''keep'')"
    using r2 m2 k1 c(5) c(6) k2 c(8) c(9) k3 c(11) one e0 en
    by (intro exI conjI)
  with first show ?thesis by (rule conjI)
qed

section \<open>The run\<close>

lemma authoritiesLoop_skip:
  "entryCertificates a i x = Inl msg \<Longrightarrow>
   authoritiesLoop l fl a (x # xs) i w =
     authoritiesLoop l fl a xs (Suc i) (w\<lparr>logged := logged w @ [msg]\<rparr>)"
  by simp

lemma authoritiesLoop_entry:
  assumes "entryCertificates a i x = Inr certs" and "int i < maxInt"
  shows "authoritiesLoop l fl a (x # xs) i w =
     (case updateYAML l (files w) (outputFilepath fl) a (int i)
             (organization fl) (commonName fl) (uri fl)
             (EncodeToString (fst (certificatesLoop l a i certs 0 ([], logged w)))) of
        Inl err \<Rightarrow>
          authoritiesLoop l fl a xs (Suc i)
            (w\<lparr>logged := snd (certificatesLoop l a i certs 0 ([], logged w))
                             @ [ErrorUpdatingYAML a i err]\<rparr>)
      | Inr f' \<Rightarrow>
          authoritiesLoop l fl a xs (Suc i)
            (w\<lparr>files := f', logged := snd (certificatesLoop l a i certs 0 ([], logged w))\<rparr>))"
proof -
  have np: "updateYAML l (files w) (outputFilepath fl) a (int i)
             (organization fl) (commonName fl) (uri fl)
             (EncodeToString (fst (certificatesLoop l a i certs 0 ([], logged w)))) \<noteq> Inl Panic"
    using assms(2) by (intro updateYAML_not_Panic) simp_all
  show ?thesis
    using np
    by (simp add: assms(1) case_prod_beta split: sum.splits error.splits)
qed

lemma authoritiesLoop_no_panic:
  "\<not> panicked w \<Longrightarrow> int i + int (length xs) \<le> maxInt \<Longrightarrow>
   \<not> panicked (authoritiesLoop l fl a xs i w)"
proof (induction xs arbitrary: i w)
  case Nil
  then show ?case by simp
next
  case (Cons x xs)
  have b: "int (Suc i) + int (length xs) \<le> maxInt" using Cons.prems(2) by simp
  have i: "int i < maxInt" using Cons.prems(2) by simp
  have ih: "\<not> panicked (authoritiesLoop l fl a xs (Suc i) w')" if "\<not> panicked w'" for w'
    using that b by (rule Cons.IH)
  show ?case
  proof (cases "entryCertificates a i x")
    case (Inl msg)
    show ?thesis
      unfolding authoritiesLoop_skip [OF Inl]
      using Cons.prems(1) by (intro ih) simp
  next
    case (Inr certs)
    show ?thesis
      unfolding authoritiesLoop_entry [OF Inr i]
      using Cons.prems(1) by (simp add: ih split: sum.splits)
  qed
qed

lemma kindsLoop_no_panic:
  "\<not> panicked w \<Longrightarrow>
   \<forall>k ys. asSlice (index_map trustedRoot k) = Some ys \<longrightarrow> int (length ys) \<le> maxInt \<Longrightarrow>
   \<not> panicked (kindsLoop l fl trustedRoot kinds w)"
proof (induction kinds arbitrary: w)
  case Nil
  then show ?case by simp
next
  case (Cons k kinds)
  have ih: "\<not> panicked (kindsLoop l fl trustedRoot kinds w')" if "\<not> panicked w'" for w'
    using that Cons.prems(2) by (rule Cons.IH)
  show ?case
  proof (cases "asSlice (index_map trustedRoot k)")
    case None
    then show ?thesis using Cons.prems(1) by (simp add: ih)
  next
    case (Some ys)
    have len: "int 0 + int (length ys) \<le> maxInt" using Cons.prems(2) Some by simp
    have "\<not> panicked (authoritiesLoop l fl k ys 0 (w\<lparr>logged := logged w @ [ThereAre (length ys) k]\<rparr>))"
      using Cons.prems(1) len by (intro authoritiesLoop_no_panic) simp_all
    then show ?thesis using Some by (simp add: Let_def ih)
  qed
qed

lemma main_completes:
  assumes "templateFilePath fl \<noteq> []" and "trustedRootPath fl \<noteq> []"
    and "f (outputFilepath fl) \<noteq> NoDir" and "f (outputFilepath fl) \<noteq> Locked"
    and "(f(outputFilepath fl := File [])) (templateFilePath fl) = File template"
    and "(f(outputFilepath fl := File template)) (trustedRootPath fl) = File text"
    and "json_Decode l text = Some trustedRoot"
    and "\<forall>k ys. asSlice (index_map trustedRoot k) = Some ys \<longrightarrow> int (length ys) \<le> maxInt"
  shows "fst (main l fl f) = 0"
proof -
  have t: "(case Truncate f (outputFilepath fl) of
                Inr f1 \<Rightarrow> Inr f1
              | Inl OtherError \<Rightarrow> Inl (ErrorTruncating OtherError)
              | Inl NotExist \<Rightarrow>
                  (case Create f (outputFilepath fl) of
                     Inl err \<Rightarrow> Inl (ErrorCreating err)
                   | Inr f1 \<Rightarrow> Inr f1)) = Inr (f(outputFilepath fl := File []))"
    using assms(3,4) by (simp add: Truncate_def Create_def split: node.splits)
  have c: "copyFile (f(outputFilepath fl := File [])) (templateFilePath fl) (outputFilepath fl) =
      Inr (f(outputFilepath fl := File template))"
    using assms(5) by (simp add: copyFile_def ReadFile_def WriteFile_def)
  have r: "ReadFile (f(outputFilepath fl := File template)) (trustedRootPath fl) = Inr text"
    using assms(6) by (simp add: ReadFile_def)
  have np: "\<not> panicked (kindsLoop l fl trustedRoot [''certificateAuthorities'', ''timestampAuthorities'']
      \<lparr>files = f(outputFilepath fl := File template),
       logged = [TemplateFilePathIs (templateFilePath fl), TrustedRootPathIs (trustedRootPath fl),
                  OutputFilenameIs (outputFilepath fl), OrganizationIs (organization fl),
                  CommonNameIs (commonName fl), URIIs (uri fl)],
       panicked = False\<rparr>)"
    using assms(8) by (intro kindsLoop_no_panic) simp_all
  show ?thesis
    unfolding main_def using assms(1,2) np
    by (simp only: t c r assms(7) Let_def if_False sum.case option.case fst_conv)
qed

section \<open>The certificate chain of an entry\<close>

lemma sigstoreKeysOf_SomeE:
  assumes "sigstoreKeysOf root = Some sk"
  obtains spec where "asMap (index_map root ''spec'') = Some spec"
    and "asMap (index_map spec ''sigstoreKeys'') = Some sk"
  using assms by (auto simp: sigstoreKeysOf_def split: option.splits)

lemma authoritiesLoop_patch:
  assumes "entryCertificates a i x = Inr certs"
    and "ReadFile (files w) (outputFilepath fl) = Inr data"
    and "yaml_Unmarshal l data = Some root"
    and "sigstoreKeysOf root = Some sk"
    and "int i < maxInt"
  shows "\<exists>root'.
      updateYAML_tree root a (int i) (organization fl) (commonName fl) (uri fl)
        (EncodeToString (concat (List.map_filter (pemBlockOf l) certs))) = Inr root'
    \<and> authoritiesLoop l fl a (x # xs) i w =
        (case yaml_Marshal l root' of
           None \<Rightarrow>
             authoritiesLoop l fl a xs (Suc i)
               (w\<lparr>logged := snd (certificatesLoop l a i certs 0 ([], logged w))
                                @ [ErrorUpdatingYAML a i MarshalFailed]\<rparr>)
         | Some updatedData \<Rightarrow>
             authoritiesLoop l fl a xs (Suc i)
               (w\<lparr>files := (files w)(outputFilepath fl := File updatedData),
                  logged := snd (certificatesLoop l a i certs 0 ([], logged w))\<rparr>))"
proof -
  from assms(4) obtain spec where
    n1: "asMap (index_map root ''spec'') = Some spec" and
    n2: "asMap (index_map spec ''sigstoreKeys'') = Some sk"
    by (rule sigstoreKeysOf_SomeE)
  have i0: "0 \<le> int i" by simp
  define cc where "cc = EncodeToString (concat (List.map_filter (pemBlockOf l) certs))"
  from updateYAML_tree_Inr [OF n1 n2 i0 assms(5)] obtain root' where
    t: "updateYAML_tree root a (int i) (organization fl) (commonName fl) (uri fl) cc = Inr root'"
    by blast
  have d: "files w (outputFilepath fl) = File data" using assms(2) by (simp add: ReadFile_Inr)
  have c: "fst (certificatesLoop l a i certs 0 ([], logged w)) =
      concat (List.map_filter (pemBlockOf l) certs)"
    by (simp add: certificatesLoop_fst)
  have "authoritiesLoop l fl a (x # xs) i w =
        (case yaml_Marshal l root' of
           None \<Rightarrow>
             authoritiesLoop l fl a xs (Suc i)
               (w\<lparr>logged := snd (certificatesLoop l a i certs 0 ([], logged w))
                                @ [ErrorUpdatingYAML a i MarshalFailed]\<rparr>)
         | Some updatedData \<Rightarrow>
             authoritiesLoop l fl a xs (Suc i)
               (w\<lparr>files := (files w)(outputFilepath fl := File updatedData),
                  logged := snd (certificatesLoop l a i certs 0 ([], logged w))\<rparr>))"
    unfolding authoritiesLoop_entry [OF assms(1) assms(5)] c cc_def [symmetric]
      updateYAML_eq [where f = "files w" and filename = "outputFilepath fl" and l = l, OF d assms(3) t]
    by (simp split: option.splits)
  with t show ?thesis unfolding cc_def by blast
qed

lemma certificatePEM_good:
  assumes "asMap c = Some cert" and "asString (index_map cert ''rawBytes'') = Some rawBytes"
    and "DecodeString rawBytes = Inr der" and "parseCertificate l der"
  shows "convertToPEM l der =
           Inr (''-----BEGIN CERTIFICATE-----'' @ [CHR 0x0A] @ breakLines (EncodeToString der)
                @ ''-----END CERTIFICATE-----'' @ [CHR 0x0A])"
    and "certificatePEM l a i j c =
           Inr (''-----BEGIN CERTIFICATE-----'' @ [CHR 0x0A] @ breakLines (EncodeToString der)
                @ ''-----END CERTIFICATE-----'' @ [CHR 0x0A])"
    and "pemBlockOf l c =
           Some (''-----BEGIN CERTIFICATE-----'' @ [CHR 0x0A] @ breakLines (EncodeToString der)
                @ ''-----END CERTIFICATE-----'' @ [CHR 0x0A])"
  using assms
  by (simp_all add: certificatePEM_def pemBlockOf_def convertToPEM_def pem_Encode_def
      pemBegin_def pemEnd_def)

text \<open>
  C3. Entry \<open>i\<close> of an authority kind has the certificates \<open>certs\<close>, and the output
  file holds a document with \<^verbatim>\<open>spec.sigstoreKeys\<close>. Then the step of the loop of
  \<^verbatim>\<open>main\<close> for this entry patches the document with a \<^verbatim>\<open>certChain\<close> that
  decodes to the concatenation, in the order of the chain, of the PEM blocks of the
  certificates that have one, and goes on with the text of the patched document in the
  output file (or, when \<^verbatim>\<open>yaml.Marshal\<close> fails, with one more line in the log). For
  an entry without certificates the value is the base64 text of the empty string, the
  empty string. A certificate whose \<^verbatim>\<open>rawBytes\<close> decodes to bytes that the X.509
  parser accepts is turned, by the body of the loop over the certificates, into a
  \<^verbatim>\<open>BEGIN CERTIFICATE\<close> line, the base64 lines of these bytes and an
  \<^verbatim>\<open>END CERTIFICATE\<close> line, and this is its PEM block.
\<close>

theorem certChain_decodes_to_pem_blocks:
  assumes "entryCertificates a i x = Inr certs"
    and "ReadFile (files w) (outputFilepath fl) = Inr data"
    and "yaml_Unmarshal l data = Some root"
    and "sigstoreKeysOf root = Some sk"
    and "int i < maxInt"
  shows "\<exists>certChain root' lg.
      DecodeString certChain = Inr (concat (List.map_filter (pemBlockOf l) certs))
    \<and> (certs = [] \<longrightarrow> certChain = EncodeToString [] \<and> certChain = [])
    \<and> updateYAML_tree root a (int i) (organization fl) (commonName fl) (uri fl) certChain = Inr root'
    \<and> entryField root' a i ''certChain'' = Some (String certChain)
    \<and> authoritiesLoop l fl a (x # xs) i w =
        (case yaml_Marshal l root' of
           None \<Rightarrow>
             authoritiesLoop l fl a xs (Suc i) (w\<lparr>logged := lg @ [ErrorUpdatingYAML a i MarshalFailed]\<rparr>)
         | Some updatedData \<Rightarrow>
             authoritiesLoop l fl a xs (Suc i)
               (w\<lparr>files := (files w)(outputFilepath fl := File updatedData), logged := lg\<rparr>))
    \<and> (\<forall>c \<in> set certs. \<forall>cert rawBytes der j.
          asMap c = Some cert \<and> asString (index_map cert ''rawBytes'') = Some rawBytes
          \<and> DecodeString rawBytes = Inr der \<and> parseCertificate l der \<longrightarrow>
            convertToPEM l der =
              Inr (''-----BEGIN CERTIFICATE-----'' @ [CHR 0x0A] @ breakLines (EncodeToString der)
                   @ ''-----END CERTIFICATE-----'' @ [CHR 0x0A])
          \<and> certificatePEM l a i j c =
              Inr (''-----BEGIN CERTIFICATE-----'' @ [CHR 0x0A] @ breakLines (EncodeToString der)
                   @ ''-----END CERTIFICATE-----'' @ [CHR 0x0A])
          \<and> pemBlockOf l c =
              Some (''-----BEGIN CERTIFICATE-----'' @ [CHR 0x0A] @ breakLines (EncodeToString der)
                   @ ''-----END CERTIFICATE-----'' @ [CHR 0x0A]))"
proof -
  define certChain where "certChain = EncodeToString (concat (List.map_filter (pemBlockOf l) certs))"
  define lg where "lg = snd (certificatesLoop l a i certs 0 ([], logged w))"
  from authoritiesLoop_patch [OF assms, of xs] obtain root' where
    t: "updateYAML_tree root a (int i) (organization fl) (commonName fl) (uri fl) certChain = Inr root'"
    and s: "authoritiesLoop l fl a (x # xs) i w =
        (case yaml_Marshal l root' of
           None \<Rightarrow>
             authoritiesLoop l fl a xs (Suc i) (w\<lparr>logged := lg @ [ErrorUpdatingYAML a i MarshalFailed]\<rparr>)
         | Some updatedData \<Rightarrow>
             authoritiesLoop l fl a xs (Suc i)
               (w\<lparr>files := (files w)(outputFilepath fl := File updatedData), logged := lg\<rparr>))"
    unfolding certChain_def lg_def by blast
  have d: "DecodeString certChain = Inr (concat (List.map_filter (pemBlockOf l) certs))"
    by (simp add: certChain_def DecodeString_EncodeToString)
  have e: "certs = [] \<longrightarrow> certChain = EncodeToString [] \<and> certChain = []"
    by (simp add: certChain_def List.map_filter_simps)
  have f: "entryField root' a i ''certChain'' = Some (String certChain)"
    using entryField_updated(1) [OF t] by simp
  have g: "\<forall>c \<in> set certs. \<forall>cert rawBytes der j.
          asMap c = Some cert \<and> asString (index_map cert ''rawBytes'') = Some rawBytes
          \<and> DecodeString rawBytes = Inr der \<and> parseCertificate l der \<longrightarrow>
            convertToPEM l der =
              Inr (''-----BEGIN CERTIFICATE-----'' @ [CHR 0x0A] @ breakLines (EncodeToString der)
                   @ ''-----END CERTIFICATE-----'' @ [CHR 0x0A])
          \<and> certificatePEM l a i j c =
              Inr (''-----BEGIN CERTIFICATE-----'' @ [CHR 0x0A] @ breakLines (EncodeToString der)
                   @ ''-----END CERTIFICATE-----'' @ [CHR 0x0A])
          \<and> pemBlockOf l c =
              Some (''-----BEGIN CERTIFICATE-----'' @ [CHR 0x0A] @ breakLines (EncodeToString der)
                   @ ''-----END CERTIFICATE-----'' @ [CHR 0x0A])"
    using certificatePEM_good by blast
  from d e t f s g show ?thesis by blast
qed

lemma entryCertificates_entryOfCertificates:
  "entryCertificates a i (entryOfCertificates certs) = Inr certs"
  by (simp add: entryCertificates_def entryOfCertificates_def index_map_def)

lemma exampleWorld_reads:
  "ReadFile (files \<lparr>files = exampleFiles(''out.yaml'' := File ''template''), logged = lg, panicked = False\<rparr>)
     (outputFilepath exampleFlags) = Inr ''template''"
  "yaml_Unmarshal exampleLib ''template'' = Some templateNoKeys"
  "sigstoreKeysOf templateNoKeys = Some fmempty"
  "int 0 < maxInt"
  by (simp_all add: ReadFile_def exampleFlags_def exampleLib_def sigstoreKeysOf_def
      templateNoKeys_def index_map_def maxInt_def)

theorem certChain_decodes_to_pem_blocks_witness:
  "\<exists>certChain root' lg.
      DecodeString certChain =
        Inr (''-----BEGIN CERTIFICATE-----'' @ [CHR 0x0A] @ ''MGFi'' @ [CHR 0x0A]
             @ ''-----END CERTIFICATE-----'' @ [CHR 0x0A]
             @ ''-----BEGIN CERTIFICATE-----'' @ [CHR 0x0A] @ ''MGM='' @ [CHR 0x0A]
             @ ''-----END CERTIFICATE-----'' @ [CHR 0x0A])
    \<and> entryField root' ''certificateAuthorities'' 0 ''certChain'' = Some (String certChain)
    \<and> authoritiesLoop exampleLib exampleFlags ''certificateAuthorities'' [entryGood] 0
        \<lparr>files = exampleFiles(''out.yaml'' := File ''template''), logged = [], panicked = False\<rparr> =
       \<lparr>files = exampleFiles(''out.yaml'' := File ''patched''), logged = lg, panicked = False\<rparr>
    \<and> certificatePEM exampleLib ''certificateAuthorities'' 0 0 certA =
        Inr (''-----BEGIN CERTIFICATE-----'' @ [CHR 0x0A] @ ''MGFi'' @ [CHR 0x0A]
             @ ''-----END CERTIFICATE-----'' @ [CHR 0x0A])"
proof -
  have h1: "entryCertificates ''certificateAuthorities'' 0 entryGood = Inr [certA, certBad, certB]"
    unfolding entryGood_def by (rule entryCertificates_entryOfCertificates)
  from certChain_decodes_to_pem_blocks [OF h1 exampleWorld_reads, of "[]" "[]"]
  obtain certChain root' lg where
    d: "DecodeString certChain =
          Inr (concat (List.map_filter (pemBlockOf exampleLib) [certA, certBad, certB]))" and
    f: "entryField root' ''certificateAuthorities'' 0 ''certChain'' = Some (String certChain)" and
    s: "authoritiesLoop exampleLib exampleFlags ''certificateAuthorities'' [entryGood] 0
        \<lparr>files = exampleFiles(''out.yaml'' := File ''template''), logged = [], panicked = False\<rparr> =
        (case yaml_Marshal exampleLib root' of
           None \<Rightarrow>
             authoritiesLoop exampleLib exampleFlags ''certificateAuthorities'' [] (Suc 0)
               (\<lparr>files = exampleFiles(''out.yaml'' := File ''template''), logged = [], panicked = False\<rparr>
                  \<lparr>logged := lg @ [ErrorUpdatingYAML ''certificateAuthorities'' 0 MarshalFailed]\<rparr>)
         | Some updatedData \<Rightarrow>
             authoritiesLoop exampleLib exampleFlags ''certificateAuthorities'' [] (Suc 0)
               (\<lparr>files = exampleFiles(''out.yaml'' := File ''template''), logged = [], panicked = False\<rparr>
                  \<lparr>files := (files \<lparr>files = exampleFiles(''out.yaml'' := File ''template''), logged = [],
                                       panicked = False\<rparr>)(outputFilepath exampleFlags := File updatedData),
                   logged := lg\<rparr>))" and
    g: "\<forall>c \<in> set [certA, certBad, certB]. \<forall>cert rawBytes der j.
          asMap c = Some cert \<and> asString (index_map cert ''rawBytes'') = Some rawBytes
          \<and> DecodeString rawBytes = Inr der \<and> parseCertificate exampleLib der \<longrightarrow>
            convertToPEM exampleLib der =
              Inr (''-----BEGIN CERTIFICATE-----'' @ [CHR 0x0A] @ breakLines (EncodeToString der)
                   @ ''-----END CERTIFICATE-----'' @ [CHR 0x0A])
          \<and> certificatePEM exampleLib ''certificateAuthorities'' 0 j c =
              Inr (''-----BEGIN CERTIFICATE-----'' @ [CHR 0x0A] @ breakLines (EncodeToString der)
                   @ ''-----END CERTIFICATE-----'' @ [CHR 0x0A])
          \<and> pemBlockOf exampleLib c =
              Some (''-----BEGIN CERTIFICATE-----'' @ [CHR 0x0A] @ breakLines (EncodeToString der)
                   @ ''-----END CERTIFICATE-----'' @ [CHR 0x0A])"
    by (elim exE conjE) (rule that)
  have d': "DecodeString certChain =
        Inr (''-----BEGIN CERTIFICATE-----'' @ [CHR 0x0A] @ ''MGFi'' @ [CHR 0x0A]
             @ ''-----END CERTIFICATE-----'' @ [CHR 0x0A]
             @ ''-----BEGIN CERTIFICATE-----'' @ [CHR 0x0A] @ ''MGM='' @ [CHR 0x0A]
             @ ''-----END CERTIFICATE-----'' @ [CHR 0x0A])"
    using d
    by (simp add: List.map_filter_simps pemBlockOf_certA pemBlockOf_certB pemBlockOf_certBad
        del: append.simps)
  have s': "authoritiesLoop exampleLib exampleFlags ''certificateAuthorities'' [entryGood] 0
        \<lparr>files = exampleFiles(''out.yaml'' := File ''template''), logged = [], panicked = False\<rparr> =
       \<lparr>files = exampleFiles(''out.yaml'' := File ''patched''), logged = lg, panicked = False\<rparr>"
    unfolding s by (simp add: exampleLib_def exampleFlags_def)
  have p: "parseCertificate exampleLib ''0ab''" by (simp add: exampleLib_def)
  have "certificatePEM exampleLib ''certificateAuthorities'' 0 0 certA =
              Inr (''-----BEGIN CERTIFICATE-----'' @ [CHR 0x0A] @ breakLines (EncodeToString ''0ab'')
                   @ ''-----END CERTIFICATE-----'' @ [CHR 0x0A])"
    using g [rule_format, of certA "fmupd ''rawBytes'' (String ''MGFi'') fmempty" "''MGFi''" "''0ab''" 0]
      DecodeString_example p
    by (simp add: certA_def index_map_def del: EncodeToString.simps append.simps)
  then have c: "certificatePEM exampleLib ''certificateAuthorities'' 0 0 certA =
        Inr (''-----BEGIN CERTIFICATE-----'' @ [CHR 0x0A] @ ''MGFi'' @ [CHR 0x0A]
             @ ''-----END CERTIFICATE-----'' @ [CHR 0x0A])"
    by (simp only: EncodeToString_example breakLines_example append_assoc)
  from d' f s' c show ?thesis by (intro exI conjI)
qed

lemma map_filter_all_None:
  "\<forall>c \<in> set certs. g c = None \<Longrightarrow> List.map_filter g certs = []"
  by (induction certs) (simp_all add: List.map_filter_simps)

text \<open>
  C9. Entry \<open>i\<close> of an authority kind has a sequence of certificates of which every
  one fails, and the output file holds a document with \<^verbatim>\<open>spec.sigstoreKeys\<close>. Then
  the step of the loop of \<^verbatim>\<open>main\<close> for this entry still patches the document, with
  the base64 text of the empty string, the empty string, as \<^verbatim>\<open>certChain\<close>, and
  goes on with the text of the patched document in the output file (or, when
  \<^verbatim>\<open>yaml.Marshal\<close> fails, with one more line in the log).
\<close>

theorem failing_chain_is_still_written:
  assumes "entryCertificates a i x = Inr certs"
    and "\<forall>c \<in> set certs. certificateFails l c"
    and "ReadFile (files w) (outputFilepath fl) = Inr data"
    and "yaml_Unmarshal l data = Some root"
    and "sigstoreKeysOf root = Some sk"
    and "int i < maxInt"
  shows "\<exists>root' lg.
      EncodeToString [] = []
    \<and> updateYAML_tree root a (int i) (organization fl) (commonName fl) (uri fl) (EncodeToString []) = Inr root'
    \<and> entryField root' a i ''certChain'' = Some (String [])
    \<and> authoritiesLoop l fl a (x # xs) i w =
        (case yaml_Marshal l root' of
           None \<Rightarrow>
             authoritiesLoop l fl a xs (Suc i) (w\<lparr>logged := lg @ [ErrorUpdatingYAML a i MarshalFailed]\<rparr>)
         | Some updatedData \<Rightarrow>
             authoritiesLoop l fl a xs (Suc i)
               (w\<lparr>files := (files w)(outputFilepath fl := File updatedData), logged := lg\<rparr>))"
proof -
  have n: "List.map_filter (pemBlockOf l) certs = []"
    using assms(2) by (intro map_filter_all_None) (simp add: certificateFails_iff)
  define lg where "lg = snd (certificatesLoop l a i certs 0 ([], logged w))"
  from authoritiesLoop_patch [OF assms(1,3,4,5,6), where xs = xs] obtain root' where
    t: "updateYAML_tree root a (int i) (organization fl) (commonName fl) (uri fl) (EncodeToString []) = Inr root'"
    and s: "authoritiesLoop l fl a (x # xs) i w =
        (case yaml_Marshal l root' of
           None \<Rightarrow>
             authoritiesLoop l fl a xs (Suc i) (w\<lparr>logged := lg @ [ErrorUpdatingYAML a i MarshalFailed]\<rparr>)
         | Some updatedData \<Rightarrow>
             authoritiesLoop l fl a xs (Suc i)
               (w\<lparr>files := (files w)(outputFilepath fl := File updatedData), logged := lg\<rparr>))"
    unfolding lg_def n by auto
  have f: "entryField root' a i ''certChain'' = Some (String [])"
    using entryField_updated(1) [OF t] by simp
  have e: "EncodeToString [] = []" by simp
  from e t f s show ?thesis by blast
qed

lemma certificateFails_examples:
  "\<forall>c \<in> set [certBad, String ''MGFi'']. certificateFails exampleLib c"
  by (simp add: certificateFails_iff pemBlockOf_certBad) (simp add: pemBlockOf_def)

theorem failing_chain_is_still_written_witness:
  "\<exists>root' lg.
      entryField root' ''certificateAuthorities'' 0 ''certChain'' = Some (String [])
    \<and> updateYAML_tree templateNoKeys ''certificateAuthorities'' 0 ''o'' ''c'' ''u'' [] = Inr root'
    \<and> authoritiesLoop exampleLib exampleFlags ''certificateAuthorities'' [entryAllBad] 0
        \<lparr>files = exampleFiles(''out.yaml'' := File ''template''), logged = [], panicked = False\<rparr> =
       \<lparr>files = exampleFiles(''out.yaml'' := File ''patched''), logged = lg, panicked = False\<rparr>"
proof -
  have h1: "entryCertificates ''certificateAuthorities'' 0 entryAllBad = Inr [certBad, String ''MGFi'']"
    unfolding entryAllBad_def by (rule entryCertificates_entryOfCertificates)
  from failing_chain_is_still_written [OF h1 certificateFails_examples exampleWorld_reads, of "[]" "[]"]
  obtain root' lg where
    t: "updateYAML_tree templateNoKeys ''certificateAuthorities'' (int 0) (organization exampleFlags)
          (commonName exampleFlags) (uri exampleFlags) (EncodeToString []) = Inr root'" and
    f: "entryField root' ''certificateAuthorities'' 0 ''certChain'' = Some (String [])" and
    s: "authoritiesLoop exampleLib exampleFlags ''certificateAuthorities'' [entryAllBad] 0
        \<lparr>files = exampleFiles(''out.yaml'' := File ''template''), logged = [], panicked = False\<rparr> =
        (case yaml_Marshal exampleLib root' of
           None \<Rightarrow>
             authoritiesLoop exampleLib exampleFlags ''certificateAuthorities'' [] (Suc 0)
               (\<lparr>files = exampleFiles(''out.yaml'' := File ''template''), logged = [], panicked = False\<rparr>
                  \<lparr>logged := lg @ [ErrorUpdatingYAML ''certificateAuthorities'' 0 MarshalFailed]\<rparr>)
         | Some updatedData \<Rightarrow>
             authoritiesLoop exampleLib exampleFlags ''certificateAuthorities'' [] (Suc 0)
               (\<lparr>files = exampleFiles(''out.yaml'' := File ''template''), logged = [], panicked = False\<rparr>
                  \<lparr>files := (files \<lparr>files = exampleFiles(''out.yaml'' := File ''template''), logged = [],
                                       panicked = False\<rparr>)(outputFilepath exampleFlags := File updatedData),
                   logged := lg\<rparr>))"
    by (elim exE conjE) (rule that)
  have t': "updateYAML_tree templateNoKeys ''certificateAuthorities'' 0 ''o'' ''c'' ''u'' [] = Inr root'"
    using t by (simp add: exampleFlags_def)
  have s': "authoritiesLoop exampleLib exampleFlags ''certificateAuthorities'' [entryAllBad] 0
        \<lparr>files = exampleFiles(''out.yaml'' := File ''template''), logged = [], panicked = False\<rparr> =
       \<lparr>files = exampleFiles(''out.yaml'' := File ''patched''), logged = lg, panicked = False\<rparr>"
    unfolding s by (simp add: exampleLib_def exampleFlags_def)
  from f t' s' show ?thesis by (intro exI conjI)
qed

section \<open>Entries and certificates that are passed over\<close>

text \<open>
  C5. An entry that is not a mapping, or whose \<^verbatim>\<open>certChain\<close> is not a mapping, or
  whose \<^verbatim>\<open>certificates\<close> is not a sequence, costs one line in the log: the loop
  of \<^verbatim>\<open>main\<close> goes on with the next entry, the files as they were and no panic
  raised; when it is the last entry, the loop ends there. And a run whose trusted root
  has such an entry ends with exit status 0, once the flags are given, the output file
  can be written, and the template and the trusted root can be read.
\<close>

theorem malformed_entry_is_skipped:
  assumes "asMap x = None
     \<or> (\<exists>authorityData. asMap x = Some authorityData
          \<and> (asMap (index_map authorityData ''certChain'') = None
             \<or> (\<exists>certChainData. asMap (index_map authorityData ''certChain'') = Some certChainData
                  \<and> asSlice (index_map certChainData ''certificates'') = None)))"
  shows "(\<exists>msg. entryCertificates a i x = Inl msg
          \<and> (msg = InvalidData a i \<or> msg = NoCertChainFound a i \<or> msg = NoCertificatesFound a i)
          \<and> authoritiesLoop l fl a (x # xs) i w =
              authoritiesLoop l fl a xs (Suc i) (w\<lparr>logged := logged w @ [msg]\<rparr>)
          \<and> authoritiesLoop l fl a [x] i w = w\<lparr>logged := logged w @ [msg]\<rparr>)
       \<and> (templateFilePath fl \<noteq> [] \<and> trustedRootPath fl \<noteq> []
          \<and> f (outputFilepath fl) \<noteq> NoDir \<and> f (outputFilepath fl) \<noteq> Locked
          \<and> (f(outputFilepath fl := File [])) (templateFilePath fl) = File template
          \<and> (f(outputFilepath fl := File template)) (trustedRootPath fl) = File json
          \<and> json_Decode l json = Some trustedRoot
          \<and> asSlice (index_map trustedRoot a) = Some (before @ x # xs)
          \<and> (\<forall>k ys. asSlice (index_map trustedRoot k) = Some ys \<longrightarrow> int (length ys) \<le> maxInt)
          \<longrightarrow> fst (main l fl f) = 0)"
proof -
  from assms obtain msg where m: "entryCertificates a i x = Inl msg"
    and k: "msg = InvalidData a i \<or> msg = NoCertChainFound a i \<or> msg = NoCertificatesFound a i"
    by (auto simp: entryCertificates_def)
  have s: "authoritiesLoop l fl a (x # xs) i w =
      authoritiesLoop l fl a xs (Suc i) (w\<lparr>logged := logged w @ [msg]\<rparr>)" for xs
    using m by (rule authoritiesLoop_skip)
  have e: "authoritiesLoop l fl a [x] i w = w\<lparr>logged := logged w @ [msg]\<rparr>"
    by (simp only: s authoritiesLoop.simps(1))
  have r: "templateFilePath fl \<noteq> [] \<and> trustedRootPath fl \<noteq> []
          \<and> f (outputFilepath fl) \<noteq> NoDir \<and> f (outputFilepath fl) \<noteq> Locked
          \<and> (f(outputFilepath fl := File [])) (templateFilePath fl) = File template
          \<and> (f(outputFilepath fl := File template)) (trustedRootPath fl) = File json
          \<and> json_Decode l json = Some trustedRoot
          \<and> asSlice (index_map trustedRoot a) = Some (before @ x # xs)
          \<and> (\<forall>k ys. asSlice (index_map trustedRoot k) = Some ys \<longrightarrow> int (length ys) \<le> maxInt)
          \<longrightarrow> fst (main l fl f) = 0"
    using main_completes [of fl f template json l trustedRoot] by blast
  from m k s e r show ?thesis by blast
qed

lemma exampleRun:
  "templateFilePath exampleFlags \<noteq> []" "trustedRootPath exampleFlags \<noteq> []"
  "exampleFiles (outputFilepath exampleFlags) \<noteq> NoDir"
  "exampleFiles (outputFilepath exampleFlags) \<noteq> Locked"
  "(exampleFiles(outputFilepath exampleFlags := File [])) (templateFilePath exampleFlags) = File ''template''"
  "(exampleFiles(outputFilepath exampleFlags := File ''template'')) (trustedRootPath exampleFlags) = File ''json''"
  "json_Decode exampleLib ''json'' = Some exampleTrustedRoot"
  "asSlice (index_map exampleTrustedRoot ''certificateAuthorities'') = Some ([] @ String ''junk'' # [entryGood])"
  "asSlice (index_map exampleTrustedRoot ''certificateAuthorities'') = Some ([String ''junk''] @ entryGood # [])"
  "\<forall>k ys. asSlice (index_map exampleTrustedRoot k) = Some ys \<longrightarrow> int (length ys) \<le> maxInt"
  by (auto simp: exampleFlags_def exampleFiles_def exampleLib_def exampleTrustedRoot_def
      index_map_def maxInt_def split: if_splits)

theorem malformed_entry_is_skipped_witness:
  "entryCertificates ''certificateAuthorities'' 0 (String ''junk'') = Inl (InvalidData ''certificateAuthorities'' 0)
   \<and> authoritiesLoop exampleLib exampleFlags ''certificateAuthorities'' [String ''junk''] 0
        \<lparr>files = exampleFiles, logged = [], panicked = False\<rparr> =
      \<lparr>files = exampleFiles, logged = [InvalidData ''certificateAuthorities'' 0], panicked = False\<rparr>
   \<and> fst (main exampleLib exampleFlags exampleFiles) = 0"
proof -
  have h: "asMap (String ''junk'') = None
     \<or> (\<exists>authorityData. asMap (String ''junk'') = Some authorityData
          \<and> (asMap (index_map authorityData ''certChain'') = None
             \<or> (\<exists>certChainData. asMap (index_map authorityData ''certChain'') = Some certChainData
                  \<and> asSlice (index_map certChainData ''certificates'') = None)))"
    by simp
  have e: "entryCertificates ''certificateAuthorities'' 0 (String ''junk'') =
      Inl (InvalidData ''certificateAuthorities'' 0)"
    by (simp add: entryCertificates_def)
  from malformed_entry_is_skipped [OF h, where a = "''certificateAuthorities''" and i = 0
      and l = exampleLib and fl = exampleFlags and xs = "[entryGood]"
      and w = "\<lparr>files = exampleFiles, logged = [], panicked = False\<rparr>"
      and f = exampleFiles and template = "''template''" and json = "''json''"
      and trustedRoot = exampleTrustedRoot and before = "[]"]
  obtain msg where
    m: "entryCertificates ''certificateAuthorities'' 0 (String ''junk'') = Inl msg" and
    s: "authoritiesLoop exampleLib exampleFlags ''certificateAuthorities'' [String ''junk''] 0
        \<lparr>files = exampleFiles, logged = [], panicked = False\<rparr> =
       \<lparr>files = exampleFiles, logged = [], panicked = False\<rparr>
         \<lparr>logged := logged \<lparr>files = exampleFiles, logged = [], panicked = False\<rparr> @ [msg]\<rparr>" and
    r: "fst (main exampleLib exampleFlags exampleFiles) = 0"
    using exampleRun by blast
  from m e have "msg = InvalidData ''certificateAuthorities'' 0" by simp
  with s have s': "authoritiesLoop exampleLib exampleFlags ''certificateAuthorities'' [String ''junk''] 0
        \<lparr>files = exampleFiles, logged = [], panicked = False\<rparr> =
      \<lparr>files = exampleFiles, logged = [InvalidData ''certificateAuthorities'' 0], panicked = False\<rparr>"
    by simp
  from e s' r show ?thesis by (intro conjI)
qed

text \<open>
  C6. A certificate that fails (it is not a mapping, its \<^verbatim>\<open>rawBytes\<close> is missing or
  not a string, the base64 decoding fails, or the X.509 parser rejects the bytes) costs
  one line in the log, and the loop over the certificates goes on with the next
  certificate and the same PEM text. For the entry that holds it, the step of the loop
  of \<^verbatim>\<open>main\<close> patches the document with a \<^verbatim>\<open>certChain\<close> that decodes to the
  PEM blocks of the certificates before it followed by those of the certificates after
  it, and goes on with the text of the patched document in the output file (or, when
  \<^verbatim>\<open>yaml.Marshal\<close> fails, with one more line in the log). And a run whose trusted
  root has such an entry ends with exit status 0, once the flags are given, the output
  file can be written, and the template and the trusted root can be read.
\<close>

theorem failing_certificate_is_skipped:
  assumes "certificateFails l c"
  shows "(\<exists>msg. certificatesLoop l a i (c # cs) j (pemData, lg) =
                  certificatesLoop l a i cs (Suc j) (pemData, lg @ [msg])
              \<and> (msg = InvalidCertificateData a i j \<or> msg = NoRawBytesFound a i j
                  \<or> msg = ErrorDecodingBase64 a i j CorruptInput
                  \<or> msg = ErrorConvertingToPEM a i j CertificateRejected))
       \<and> (entryCertificates a i x = Inr (before @ c # cs)
          \<and> ReadFile (files w) (outputFilepath fl) = Inr data
          \<and> yaml_Unmarshal l data = Some root
          \<and> sigstoreKeysOf root = Some sk
          \<and> int i < maxInt
          \<longrightarrow> (\<exists>certChain root' lg'.
                 DecodeString certChain =
                   Inr (concat (List.map_filter (pemBlockOf l) before)
                        @ concat (List.map_filter (pemBlockOf l) cs))
               \<and> updateYAML_tree root a (int i) (organization fl) (commonName fl) (uri fl) certChain
                   = Inr root'
               \<and> entryField root' a i ''certChain'' = Some (String certChain)
               \<and> authoritiesLoop l fl a (x # xs) i w =
                   (case yaml_Marshal l root' of
                      None \<Rightarrow>
                        authoritiesLoop l fl a xs (Suc i)
                          (w\<lparr>logged := lg' @ [ErrorUpdatingYAML a i MarshalFailed]\<rparr>)
                    | Some updatedData \<Rightarrow>
                        authoritiesLoop l fl a xs (Suc i)
                          (w\<lparr>files := (files w)(outputFilepath fl := File updatedData),
                             logged := lg'\<rparr>))))
       \<and> (templateFilePath fl \<noteq> [] \<and> trustedRootPath fl \<noteq> []
          \<and> f (outputFilepath fl) \<noteq> NoDir \<and> f (outputFilepath fl) \<noteq> Locked
          \<and> (f(outputFilepath fl := File [])) (templateFilePath fl) = File template
          \<and> (f(outputFilepath fl := File template)) (trustedRootPath fl) = File json
          \<and> json_Decode l json = Some trustedRoot
          \<and> asSlice (index_map trustedRoot a) = Some (entries @ x # xs)
          \<and> entryCertificates a (length entries) x = Inr (before @ c # cs)
          \<and> (\<forall>k ys. asSlice (index_map trustedRoot k) = Some ys \<longrightarrow> int (length ys) \<le> maxInt)
          \<longrightarrow> fst (main l fl f) = 0)"
proof -
  have step: "\<exists>msg. certificatesLoop l a i (c # cs) j (pemData, lg) =
                  certificatesLoop l a i cs (Suc j) (pemData, lg @ [msg])
              \<and> (msg = InvalidCertificateData a i j \<or> msg = NoRawBytesFound a i j
                  \<or> msg = ErrorDecodingBase64 a i j CorruptInput
                  \<or> msg = ErrorConvertingToPEM a i j CertificateRejected)"
    using certificatesLoop_skips [OF assms] by blast
  have n: "pemBlockOf l c = None" using assms by (simp add: certificateFails_iff)
  have mf: "concat (List.map_filter (pemBlockOf l) (before @ c # cs)) =
      concat (List.map_filter (pemBlockOf l) before) @ concat (List.map_filter (pemBlockOf l) cs)"
    using n by (simp add: List.map_filter_def)
  have entry: "\<exists>certChain root' lg'.
                 DecodeString certChain =
                   Inr (concat (List.map_filter (pemBlockOf l) before)
                        @ concat (List.map_filter (pemBlockOf l) cs))
               \<and> updateYAML_tree root a (int i) (organization fl) (commonName fl) (uri fl) certChain
                   = Inr root'
               \<and> entryField root' a i ''certChain'' = Some (String certChain)
               \<and> authoritiesLoop l fl a (x # xs) i w =
                   (case yaml_Marshal l root' of
                      None \<Rightarrow>
                        authoritiesLoop l fl a xs (Suc i)
                          (w\<lparr>logged := lg' @ [ErrorUpdatingYAML a i MarshalFailed]\<rparr>)
                    | Some updatedData \<Rightarrow>
                        authoritiesLoop l fl a xs (Suc i)
                          (w\<lparr>files := (files w)(outputFilepath fl := File updatedData),
                             logged := lg'\<rparr>))"
    if h: "entryCertificates a i x = Inr (before @ c # cs)"
      "ReadFile (files w) (outputFilepath fl) = Inr data"
      "yaml_Unmarshal l data = Some root"
      "sigstoreKeysOf root = Some sk"
      "int i < maxInt"
  proof -
    define certChain where
      "certChain = EncodeToString (concat (List.map_filter (pemBlockOf l) (before @ c # cs)))"
    from authoritiesLoop_patch [OF h, where xs = xs] obtain root' where
      t: "updateYAML_tree root a (int i) (organization fl) (commonName fl) (uri fl) certChain = Inr root'"
      and s: "authoritiesLoop l fl a (x # xs) i w =
        (case yaml_Marshal l root' of
           None \<Rightarrow>
             authoritiesLoop l fl a xs (Suc i)
               (w\<lparr>logged := snd (certificatesLoop l a i (before @ c # cs) 0 ([], logged w))
                                @ [ErrorUpdatingYAML a i MarshalFailed]\<rparr>)
         | Some updatedData \<Rightarrow>
             authoritiesLoop l fl a xs (Suc i)
               (w\<lparr>files := (files w)(outputFilepath fl := File updatedData),
                  logged := snd (certificatesLoop l a i (before @ c # cs) 0 ([], logged w))\<rparr>))"
      unfolding certChain_def by blast
    have d: "DecodeString certChain =
        Inr (concat (List.map_filter (pemBlockOf l) before) @ concat (List.map_filter (pemBlockOf l) cs))"
      unfolding certChain_def mf by (rule DecodeString_EncodeToString)
    have e: "entryField root' a i ''certChain'' = Some (String certChain)"
      using entryField_updated(1) [OF t] by simp
    from d t e s show ?thesis by blast
  qed
  have run: "templateFilePath fl \<noteq> [] \<and> trustedRootPath fl \<noteq> []
          \<and> f (outputFilepath fl) \<noteq> NoDir \<and> f (outputFilepath fl) \<noteq> Locked
          \<and> (f(outputFilepath fl := File [])) (templateFilePath fl) = File template
          \<and> (f(outputFilepath fl := File template)) (trustedRootPath fl) = File json
          \<and> json_Decode l json = Some trustedRoot
          \<and> asSlice (index_map trustedRoot a) = Some (entries @ x # xs)
          \<and> entryCertificates a (length entries) x = Inr (before @ c # cs)
          \<and> (\<forall>k ys. asSlice (index_map trustedRoot k) = Some ys \<longrightarrow> int (length ys) \<le> maxInt)
          \<longrightarrow> fst (main l fl f) = 0"
    using main_completes [of fl f template json l trustedRoot] by blast
  from step entry run show ?thesis by blast
qed

theorem failing_certificate_is_skipped_witness:
  "\<exists>msg certChain root' lg'.
      certificatesLoop exampleLib ''certificateAuthorities'' 1 [certBad, certB] 1 ([], []) =
        certificatesLoop exampleLib ''certificateAuthorities'' 1 [certB] 2 ([], [msg])
    \<and> DecodeString certChain =
        Inr (''-----BEGIN CERTIFICATE-----'' @ [CHR 0x0A] @ ''MGFi'' @ [CHR 0x0A]
             @ ''-----END CERTIFICATE-----'' @ [CHR 0x0A]
             @ ''-----BEGIN CERTIFICATE-----'' @ [CHR 0x0A] @ ''MGM='' @ [CHR 0x0A]
             @ ''-----END CERTIFICATE-----'' @ [CHR 0x0A])
    \<and> entryField root' ''certificateAuthorities'' 1 ''certChain'' = Some (String certChain)
    \<and> authoritiesLoop exampleLib exampleFlags ''certificateAuthorities'' [entryGood] 1
        \<lparr>files = exampleFiles(''out.yaml'' := File ''template''), logged = [], panicked = False\<rparr> =
       \<lparr>files = exampleFiles(''out.yaml'' := File ''patched''), logged = lg', panicked = False\<rparr>
    \<and> fst (main exampleLib exampleFlags exampleFiles) = 0"
proof -
  have h: "certificateFails exampleLib certBad"
    by (simp add: certificateFails_iff pemBlockOf_certBad)
  have e: "entryCertificates ''certificateAuthorities'' i entryGood = Inr ([certA] @ certBad # [certB])" for i
    unfolding entryGood_def by (simp add: entryCertificates_entryOfCertificates)
  have m: "int 1 < maxInt" by (simp add: maxInt_def)
  note t = failing_certificate_is_skipped [OF h, where a = "''certificateAuthorities''" and i = 1
      and cs = "[certB]" and j = 1 and pemData = "[]" and lg = "[]" and before = "[certA]"
      and x = entryGood and xs = "[]" and fl = exampleFlags
      and w = "\<lparr>files = exampleFiles(''out.yaml'' := File ''template''), logged = [], panicked = False\<rparr>"
      and data = "''template''" and root = templateNoKeys and sk = fmempty
      and f = exampleFiles and template = "''template''" and json = "''json''"
      and trustedRoot = exampleTrustedRoot and entries = "[String ''junk'']"]
  from t obtain msg where
    s: "certificatesLoop exampleLib ''certificateAuthorities'' 1 [certBad, certB] 1 ([], []) =
        certificatesLoop exampleLib ''certificateAuthorities'' 1 [certB] (Suc 1) ([], [] @ [msg])"
    by blast
  from t e [of 1] exampleWorld_reads(1-3) m obtain certChain root' lg' where
    d: "DecodeString certChain =
          Inr (concat (List.map_filter (pemBlockOf exampleLib) [certA])
               @ concat (List.map_filter (pemBlockOf exampleLib) [certB]))" and
    f: "entryField root' ''certificateAuthorities'' 1 ''certChain'' = Some (String certChain)" and
    a: "authoritiesLoop exampleLib exampleFlags ''certificateAuthorities'' [entryGood] 1
        \<lparr>files = exampleFiles(''out.yaml'' := File ''template''), logged = [], panicked = False\<rparr> =
        (case yaml_Marshal exampleLib root' of
           None \<Rightarrow>
             authoritiesLoop exampleLib exampleFlags ''certificateAuthorities'' [] (Suc 1)
               (\<lparr>files = exampleFiles(''out.yaml'' := File ''template''), logged = [], panicked = False\<rparr>
                  \<lparr>logged := lg' @ [ErrorUpdatingYAML ''certificateAuthorities'' 1 MarshalFailed]\<rparr>)
         | Some updatedData \<Rightarrow>
             authoritiesLoop exampleLib exampleFlags ''certificateAuthorities'' [] (Suc 1)
               (\<lparr>files = exampleFiles(''out.yaml'' := File ''template''), logged = [], panicked = False\<rparr>
                  \<lparr>files := (files \<lparr>files = exampleFiles(''out.yaml'' := File ''template''), logged = [],
                                       panicked = False\<rparr>)(outputFilepath exampleFlags := File updatedData),
                   logged := lg'\<rparr>))"
    by blast
  from t exampleRun e [of "length [String ''junk'']"] have r: "fst (main exampleLib exampleFlags exampleFiles) = 0"
    by blast
  have s': "certificatesLoop exampleLib ''certificateAuthorities'' 1 [certBad, certB] 1 ([], []) =
        certificatesLoop exampleLib ''certificateAuthorities'' 1 [certB] 2 ([], [msg])"
    using s by (simp only: append_Nil Suc_1)
  have d': "DecodeString certChain =
        Inr (''-----BEGIN CERTIFICATE-----'' @ [CHR 0x0A] @ ''MGFi'' @ [CHR 0x0A]
             @ ''-----END CERTIFICATE-----'' @ [CHR 0x0A]
             @ ''-----BEGIN CERTIFICATE-----'' @ [CHR 0x0A] @ ''MGM='' @ [CHR 0x0A]
             @ ''-----END CERTIFICATE-----'' @ [CHR 0x0A])"
    using d
    by (simp add: List.map_filter_simps pemBlockOf_certA pemBlockOf_certB del: append.simps)
  have a': "authoritiesLoop exampleLib exampleFlags ''certificateAuthorities'' [entryGood] 1
        \<lparr>files = exampleFiles(''out.yaml'' := File ''template''), logged = [], panicked = False\<rparr> =
       \<lparr>files = exampleFiles(''out.yaml'' := File ''patched''), logged = lg', panicked = False\<rparr>"
    unfolding a by (simp add: exampleLib_def exampleFlags_def)
  from s' d' f a' r show ?thesis by (intro exI conjI)
qed

section \<open>The required flags\<close>

text \<open>
  C4. With an empty template path or an empty trusted root path, \<^verbatim>\<open>main\<close> ends in
  \<^verbatim>\<open>log.Fatalf\<close>: the exit status is 1, the log holds the one line that names the
  missing flag, and the files are as they were, none written and none created. The same
  holds of the \<^verbatim>\<open>main\<close> of the action's variant.
\<close>

theorem missing_flag_is_fatal:
  assumes "templateFilePath fl = [] \<or> trustedRootPath fl = []"
  shows "main l fl f =
           (1, f, [if templateFilePath fl = [] then TemplateFlagRequired else TrustedRootFlagRequired])
       \<and> main_action t l fl f =
           (1, f, [if templateFilePath fl = [] then TemplateFlagRequired else TrustedRootFlagRequired])"
  using assms by (auto simp: main_def main_action_def fatal_def)

theorem missing_flag_is_fatal_witness:
  "main exampleLib (exampleFlags\<lparr>trustedRootPath := []\<rparr>) exampleFiles =
     (1, exampleFiles, [TrustedRootFlagRequired])
   \<and> main_action \<lparr>openssl = (\<lambda>der. None), yq = (\<lambda>expression data. None), tempName = (\<lambda>pattern. None)\<rparr>
        exampleLib (exampleFlags\<lparr>trustedRootPath := []\<rparr>) exampleFiles =
     (1, exampleFiles, [TrustedRootFlagRequired])"
proof -
  have h: "templateFilePath (exampleFlags\<lparr>trustedRootPath := []\<rparr>) = []
      \<or> trustedRootPath (exampleFlags\<lparr>trustedRootPath := []\<rparr>) = []"
    by simp
  from missing_flag_is_fatal [OF h, of exampleLib exampleFiles
      "\<lparr>openssl = (\<lambda>der. None), yq = (\<lambda>expression data. None), tempName = (\<lambda>pattern. None)\<rparr>"]
  show ?thesis by (simp add: exampleFlags_def)
qed

end
